theory Spec2Isabelle
  imports Main "HOL-Library.Word" "HOL-Library.AList"
begin


section \<open>Bytes, typed arrays and errors\<close>

text \<open>
  Buffers (\<open>ArrayBuffer\<close>, \<open>Uint8Array\<close>) are lists of bytes. JavaScript numbers are
  doubles; every offset and length below is far inside the exactly represented integers,
  so offsets are natural numbers and no wrap-around happens in the offset arithmetic.
  The one place that wraps is \<open>DataView.setUint32\<close>, which stores its argument
  modulo \<open>2 ^ 32\<close>.
\<close>

type_synonym byte = "8 word"

datatype error =
    PrivateKeyNotAvailable      \<comment> \<open>\<open>new Error('Private key not available')\<close>\<close>
  | InvalidEncryptedDataFormat  \<comment> \<open>\<open>new Error('Invalid encrypted data format')\<close>\<close>
  | InvalidChunkLength          \<comment> \<open>\<open>new Error('Invalid chunk length')\<close>\<close>
  | AuthTagMismatch             \<comment> \<open>\<open>new Error('Auth tag mismatch')\<close>\<close>
  | RangeError                  \<comment> \<open>a \<open>DataView\<close> placed outside its buffer\<close>
  | InvalidStateError           \<comment> \<open>\<open>send\<close> on a data channel that is not open\<close>
  | NotSupportedError           \<comment> \<open>\<open>createBuffer\<close> asked for a buffer of no samples\<close>
  | OperationError string       \<comment> \<open>any exception raised by a browser or library primitive\<close>

text \<open>
  \<open>TypedArray.prototype.slice(start, end)\<close>: negative indices count from the end, both
  indices are clamped to the array, an empty range gives an empty array.
\<close>

definition js_slice :: "'a list \<Rightarrow> int \<Rightarrow> int \<Rightarrow> 'a list" where
  "js_slice xs start fin =
     (let n = int (length xs);
          k = (if start < 0 then max (n + start) 0 else min start n);
          f = (if fin < 0 then max (n + fin) 0 else min fin n)
      in take (nat (f - k)) (drop (nat k) xs))"

text \<open>\<open>slice(start)\<close> with the end left out runs to the end of the array.\<close>

definition js_slice_from :: "'a list \<Rightarrow> int \<Rightarrow> 'a list" where
  "js_slice_from xs start = js_slice xs start (int (length xs))"

text \<open>
  \<open>view.setUint32(0, n, true)\<close> on a fresh 4-byte array: the little-endian bytes of
  \<open>n mod 2 ^ 32\<close>.
\<close>

definition setUint32_le :: "nat \<Rightarrow> byte list" where
  "setUint32_le n =
     [of_nat (n mod 256), of_nat (n div 256 mod 256),
      of_nat (n div 65536 mod 256), of_nat (n div 16777216 mod 256)]"

text \<open>
  \<open>new DataView(buffer, offset, 4).getUint32(0, true)\<close>: the constructor raises a
  \<open>RangeError\<close> when the four bytes do not lie inside the buffer; otherwise the
  little-endian value of the four bytes at \<open>offset\<close>.
\<close>

definition getUint32_le :: "byte list \<Rightarrow> nat \<Rightarrow> error + nat" where
  "getUint32_le buf offset =
     (if offset + 4 > length buf then Inl RangeError
      else Inr (unat (buf ! offset) + 256 * unat (buf ! (offset + 1))
                + 65536 * unat (buf ! (offset + 2)) + 16777216 * unat (buf ! (offset + 3))))"

text \<open>
  \<open>Promise.all\<close> over an array of results (and the \<open>for\<close> loop of the fallback
  branch, which stops at the first exception): all the values, or an error.
\<close>

fun Promise_all :: "(error + 'a) list \<Rightarrow> error + 'a list" where
  "Promise_all [] = Inr []"
| "Promise_all (r # rs) =
     (case r of
        Inl e \<Rightarrow> Inl e
      | Inr v \<Rightarrow> (case Promise_all rs of Inl e \<Rightarrow> Inl e | Inr vs \<Rightarrow> Inr (v # vs)))"

section \<open>CryptoService: RSA-OAEP chunked encryption (key wrapping)\<close>

text \<open>
  \<open>encryptAudio\<close> and \<open>decryptAudio\<close> of \<open>cryptoService.js\<close>;
  \<open>encryptSessionKey\<close> and \<open>decryptSessionKey\<close> wrap and unwrap the session key
  through them. The RSA-OAEP primitive itself belongs to the browser
  (\<open>crypto.subtle\<close>) or to node-forge, selected by \<open>useNative\<close>; both branches of
  the source do the same steps around it, so the primitive of the selected branch is a
  parameter:
  \<^item> \<open>importKey jwk\<close> imports the recipient's public key (it may raise);
  \<^item> \<open>rsaEncrypt pub i chunk\<close> is the \<open>i\<close>-th call of the encryption primitive (OAEP
    is randomised, so the result may depend on the call);
  \<^item> \<open>rsaDecrypt priv chunk\<close> decrypts one chunk with the private key.
\<close>

definition MAX_CHUNK_SIZE :: nat where
  "MAX_CHUNK_SIZE = 190"

text \<open>
  \<open>for (let i = 0; i < audioBytes.length; i += MAX_CHUNK_SIZE)
       chunks.push(audioBytes.slice(i, i + MAX_CHUNK_SIZE))\<close>
\<close>

function split_chunks :: "byte list \<Rightarrow> nat \<Rightarrow> byte list list" where
  "split_chunks audioBytes i =
     (if i < length audioBytes
      then js_slice audioBytes (int i) (int (i + MAX_CHUNK_SIZE))
             # split_chunks audioBytes (i + MAX_CHUNK_SIZE)
      else [])"
  by pat_completeness auto
termination
  by (relation "measure (\<lambda>(audioBytes, i). length audioBytes - i)")
     (auto simp: MAX_CHUNK_SIZE_def)

declare split_chunks.simps [simp del]

text \<open>Each encrypted chunk is pushed behind its 4-byte little-endian length.\<close>

definition length_prefixed :: "byte list list \<Rightarrow> byte list" where
  "length_prefixed encryptedChunks =
     concat (map (\<lambda>encryptedChunk. setUint32_le (length encryptedChunk) @ encryptedChunk)
                 encryptedChunks)"

definition encryptAudio ::
  "('jwk \<Rightarrow> error + 'pub) \<Rightarrow> ('pub \<Rightarrow> nat \<Rightarrow> byte list \<Rightarrow> error + byte list) \<Rightarrow>
   byte list \<Rightarrow> 'jwk \<Rightarrow> error + byte list" where
  "encryptAudio importKey rsaEncrypt audioData recipientPublicKeyJwk =
     (let chunks = split_chunks audioData 0 in
      case importKey recipientPublicKeyJwk of
        Inl e \<Rightarrow> Inl e
      | Inr publicKey \<Rightarrow>
          (case Promise_all (map (\<lambda>(i, chunk). rsaEncrypt publicKey i chunk)
                                 (zip [0 ..< length chunks] chunks)) of
             Inl e \<Rightarrow> Inl e
           | Inr encryptedChunks \<Rightarrow> Inr (length_prefixed encryptedChunks)))"

text \<open>
  The parsing loop of \<open>decryptAudio\<close>:
  \<^verbatim>\<open>
  while (offset < encryptedBytes.length) {
      if (offset + 4 > encryptedBytes.length) throw new Error('Invalid encrypted data format');
      const view = new DataView(encryptedBytes.buffer, offset, 4);
      const chunkLength = view.getUint32(0, true);
      offset += 4;
      if (offset + chunkLength > encryptedBytes.length) throw new Error('Invalid chunk length');
      const chunk = encryptedBytes.slice(offset, offset + chunkLength);
      chunks.push(chunk);
      offset += chunkLength;
  }\<close>
\<close>

function parse_chunks :: "byte list \<Rightarrow> nat \<Rightarrow> byte list list \<Rightarrow> error + byte list list" where
  "parse_chunks encryptedBytes offset chunks =
     (if offset < length encryptedBytes then
        (if offset + 4 > length encryptedBytes then Inl InvalidEncryptedDataFormat
         else
           (case getUint32_le encryptedBytes offset of
              Inl e \<Rightarrow> Inl e
            | Inr chunkLength \<Rightarrow>
                (if offset + 4 + chunkLength > length encryptedBytes then Inl InvalidChunkLength
                 else parse_chunks encryptedBytes (offset + 4 + chunkLength)
                        (chunks @ [js_slice encryptedBytes (int (offset + 4))
                                     (int (offset + 4 + chunkLength))]))))
      else Inr chunks)"
  by pat_completeness auto
termination
  by (relation "measure (\<lambda>(encryptedBytes, offset, chunks). length encryptedBytes - offset)")
     auto

declare parse_chunks.simps [simp del]

definition decryptAudio ::
  "('priv \<Rightarrow> byte list \<Rightarrow> error + byte list) \<Rightarrow> 'priv option \<Rightarrow> byte list \<Rightarrow>
   error + byte list" where
  "decryptAudio rsaDecrypt privateKey encryptedData =
     (case privateKey of
        None \<Rightarrow> Inl PrivateKeyNotAvailable
      | Some priv \<Rightarrow>
          (case parse_chunks encryptedData 0 [] of
             Inl e \<Rightarrow> Inl e
           | Inr chunks \<Rightarrow>
               (case Promise_all (map (rsaDecrypt priv) chunks) of
                  Inl e \<Rightarrow> Inl e
                | Inr decryptedChunks \<Rightarrow> Inr (concat decryptedChunks))))"

text \<open>
  \<open>encryptSessionKey\<close> exports the session key to raw bytes and runs \<open>encryptAudio\<close>
  on them; \<open>decryptSessionKey\<close> runs \<open>decryptAudio\<close> and imports the bytes as a
  key. \<open>exportSessionKey\<close> and \<open>importSessionKey\<close> are the browser's
  \<open>exportKey('raw', ...)\<close> and \<open>importKey('raw', ...)\<close> (the identity in the fallback
  branch) and are parameters.
\<close>

definition encryptSessionKey ::
  "('key \<Rightarrow> error + byte list) \<Rightarrow> ('jwk \<Rightarrow> error + 'pub) \<Rightarrow>
   ('pub \<Rightarrow> nat \<Rightarrow> byte list \<Rightarrow> error + byte list) \<Rightarrow> 'key \<Rightarrow> 'jwk \<Rightarrow> error + byte list" where
  "encryptSessionKey exportSessionKey importKey rsaEncrypt sessionKey recipientPublicKeyJwk =
     (case exportSessionKey sessionKey of
        Inl e \<Rightarrow> Inl e
      | Inr rawKey \<Rightarrow> encryptAudio importKey rsaEncrypt rawKey recipientPublicKeyJwk)"

definition decryptSessionKey ::
  "(byte list \<Rightarrow> error + 'key) \<Rightarrow> ('priv \<Rightarrow> byte list \<Rightarrow> error + byte list) \<Rightarrow>
   'priv option \<Rightarrow> byte list \<Rightarrow> error + 'key" where
  "decryptSessionKey importSessionKey rsaDecrypt privateKey encryptedSessionKey =
     (case decryptAudio rsaDecrypt privateKey encryptedSessionKey of
        Inl e \<Rightarrow> Inl e
      | Inr rawKeyBuffer \<Rightarrow> importSessionKey rawKeyBuffer)"

section \<open>CryptoService: AES-GCM audio frames\<close>

text \<open>
  \<open>encryptAudioAES\<close> and \<open>decryptAudioAES\<close>. The cipher is a parameter, one per
  branch of \<open>useNative\<close>:
  \<^item> \<open>subtleEncrypt key iv data\<close> and \<open>subtleDecrypt key iv data\<close> are
    \<open>crypto.subtle.encrypt\<close> and \<open>decrypt\<close> with \<open>{name: 'AES-GCM', iv}\<close>; the
    browser appends the tag to the ciphertext and expects it there;
  \<^item> \<open>forgeCipher key iv data\<close> is the node-forge cipher run (\<open>start\<close>, \<open>update\<close>,
    \<open>finish\<close>), giving the output and the tag apart; \<open>forgeDecipher key iv data tag\<close>
    is the decipher run, giving the result of \<open>finish()\<close> and the output.
  The nonce is drawn inside \<open>encryptAudioAES\<close>:
  \<open>window.crypto.getRandomValues(new Uint8Array(12))\<close> in the native branch,
  \<open>forge.random.getBytesSync(12)\<close> in the fallback branch. The generator is the
  parameter \<open>random\<close>: \<open>random j\<close> is the \<open>j\<close>-th byte it yields at this call.
\<close>

definition getRandomValues :: "(nat \<Rightarrow> byte) \<Rightarrow> nat \<Rightarrow> byte list" where
  "getRandomValues random n = map random [0 ..< n]"

text \<open>
  The frame given to \<open>encryptAudioAES\<close> is an \<open>ArrayBuffer\<close> or a typed array
  (\<open>Float32Array\<close>), which is a view on an \<open>ArrayBuffer\<close>: the underlying buffer,
  the offset of the view in it and the length of the view, both in bytes.
\<close>

datatype bufferSource =
    ArrayBuffer "byte list"
  | TypedArray "byte list" nat nat   \<comment> \<open>\<open>buffer\<close>, \<open>byteOffset\<close>, \<open>byteLength\<close>\<close>

text \<open>
  The bytes of the frame: what \<open>crypto.subtle.encrypt\<close> reads from its data
  argument, for a view the bytes the view covers.
\<close>

fun source_bytes :: "bufferSource \<Rightarrow> byte list" where
  "source_bytes (ArrayBuffer b) = b"
| "source_bytes (TypedArray b byteOffset byteLength) = take byteLength (drop byteOffset b)"

text \<open>
  \<open>new Uint8Array(audioData.buffer || audioData)\<close> of the fallback branch: an
  \<open>ArrayBuffer\<close> has no \<open>buffer\<close> property and is taken itself; of a typed array
  the whole underlying buffer is taken, whatever part of it the view covers.
\<close>

fun buffer_or_self :: "bufferSource \<Rightarrow> byte list" where
  "buffer_or_self (ArrayBuffer b) = b"
| "buffer_or_self (TypedArray b byteOffset byteLength) = b"

definition encryptAudioAES ::
  "bool \<Rightarrow> (nat \<Rightarrow> byte) \<Rightarrow> ('key \<Rightarrow> byte list \<Rightarrow> byte list \<Rightarrow> error + byte list) \<Rightarrow>
   ('key \<Rightarrow> byte list \<Rightarrow> byte list \<Rightarrow> error + byte list \<times> byte list) \<Rightarrow>
   bufferSource \<Rightarrow> 'key \<Rightarrow> error + byte list" where
  "encryptAudioAES useNative random subtleEncrypt forgeCipher audioData sessionKey =
     (if useNative then
        (let iv = getRandomValues random 12 in
         case subtleEncrypt sessionKey iv (source_bytes audioData) of
           Inl e \<Rightarrow> Inl e
         | Inr encrypted \<Rightarrow> Inr (iv @ encrypted))
      else
        (let iv = getRandomValues random 12;
             inputBytes = buffer_or_self audioData
         in case forgeCipher sessionKey iv inputBytes of
              Inl e \<Rightarrow> Inl e
            | Inr (encrypted, tag) \<Rightarrow> Inr (iv @ encrypted @ tag)))"

text \<open>
  \<open>decryptAudioAES\<close> is given the \<open>ArrayBuffer\<close> that \<open>encryptAudioAES\<close> returned
  (\<open>result.buffer\<close>) or that \<open>handleIncomingAudio\<close> assembled
  (\<open>combined.buffer\<close>): a byte list.
\<close>

definition decryptAudioAES ::
  "bool \<Rightarrow> ('key \<Rightarrow> byte list \<Rightarrow> byte list \<Rightarrow> error + byte list) \<Rightarrow>
   ('key \<Rightarrow> byte list \<Rightarrow> byte list \<Rightarrow> byte list \<Rightarrow> error + bool \<times> byte list) \<Rightarrow>
   byte list \<Rightarrow> 'key \<Rightarrow> error + byte list" where
  "decryptAudioAES useNative subtleDecrypt forgeDecipher fullBuffer sessionKey =
     (if useNative then
        (let iv = js_slice fullBuffer 0 12;
             ciphertext = js_slice_from fullBuffer 12
         in subtleDecrypt sessionKey iv ciphertext)
      else
        (let iv = js_slice fullBuffer 0 12;
             tagLength = 16;
             ciphertext = js_slice fullBuffer 12 (int (length fullBuffer) - tagLength);
             tag = js_slice_from fullBuffer (int (length fullBuffer) - tagLength)
         in case forgeDecipher sessionKey iv ciphertext tag of
              Inl e \<Rightarrow> Inl e
            | Inr (success, decrypted) \<Rightarrow>
                (if \<not> success then Inl AuthTagMismatch else Inr decrypted)))"

section \<open>SignalingManager\<close>

text \<open>
  One \<open>SignalingManager\<close> per remote peer. Its own fields are the record below. The
  \<open>RTCPeerConnection\<close> it drives (\<open>this.pc\<close>) and the socket it emits on belong to the
  browser and to socket.io: their joint state is a type parameter \<open>'w\<close>, and the calls
  the manager makes on them are the fields of \<open>rtc\<close>. A call that raises returns
  \<open>Inl\<close>. \<open>'d\<close> is the type of session descriptions.
\<close>

type_synonym peer = string

datatype signalingState =
  Stable | HaveLocalOffer | HaveRemoteOffer | HaveLocalPranswer | HaveRemotePranswer
  | SignalingClosed

datatype sld_arg =
    NoArgument    \<comment> \<open>\<open>setLocalDescription()\<close>\<close>
  | RollbackArg   \<comment> \<open>\<open>setLocalDescription({ type: 'rollback' })\<close>\<close>

datatype 'd signal =
    EmitOffer "string option" peer 'd "string option" "string option"
      \<comment> \<open>\<open>roomId, targetSocketId, offer, from.id, from.username\<close>\<close>
  | EmitAnswer "string option" peer 'd "string option" "string option"
  | EmitIceCandidate "string option" peer string

record ('w, 'd) rtc =
  signalingState :: "'w \<Rightarrow> signalingState"
  localDescription :: "'w \<Rightarrow> 'd"
  setLocalDescription :: "sld_arg \<Rightarrow> 'w \<Rightarrow> error + 'w"
  setRemoteDescription :: "'d \<Rightarrow> 'w \<Rightarrow> error + 'w"
  emit :: "'d signal \<Rightarrow> 'w \<Rightarrow> error + 'w"

record signalingManager =
  sm_pc :: nat      \<comment> \<open>\<open>this.pc\<close>: the address of the peer connection\<close>
  sm_peerId :: peer
  sm_roomId :: "string option"
  sm_userId :: "string option"
  sm_username :: "string option"
  polite :: bool
  makingOffer :: bool
  ignoreOffer :: bool
  isSettingRemoteAnswerPending :: bool

text \<open>The constructor.\<close>

definition SignalingManager ::
  "nat \<Rightarrow> peer \<Rightarrow> string option \<Rightarrow> string option \<Rightarrow> string option \<Rightarrow> bool \<Rightarrow>
   signalingManager" where
  "SignalingManager peerConnection peerId roomId userId username polite' =
     \<lparr>sm_pc = peerConnection, sm_peerId = peerId, sm_roomId = roomId, sm_userId = userId,
      sm_username = username, polite = polite', makingOffer = False, ignoreOffer = False,
      isSettingRemoteAnswerPending = False\<rparr>"

text \<open>
  \<open>pc.onnegotiationneeded\<close>: the \<open>try\<close> block sets the flag, asks the browser for a
  local description and emits the offer; it ends with an exception or normally.
  \<open>catch\<close> logs the exception; \<open>finally\<close> resets the flag.
\<close>

definition negotiation_try ::
  "('w, 'd) rtc \<Rightarrow> signalingManager \<Rightarrow> 'w \<Rightarrow> (error + unit) \<times> signalingManager \<times> 'w" where
  "negotiation_try pc this w =
     (let this1 = this\<lparr>makingOffer := True\<rparr> in
      case setLocalDescription pc NoArgument w of
        Inl err \<Rightarrow> (Inl err, this1, w)
      | Inr w1 \<Rightarrow>
          (case emit pc (EmitOffer (sm_roomId this1) (sm_peerId this1) (localDescription pc w1)
                            (sm_userId this1) (sm_username this1)) w1 of
             Inl err \<Rightarrow> (Inl err, this1, w1)
           | Inr w2 \<Rightarrow> (Inr (), this1, w2)))"

definition onnegotiationneeded ::
  "('w, 'd) rtc \<Rightarrow> signalingManager \<Rightarrow> 'w \<Rightarrow> signalingManager \<times> 'w" where
  "onnegotiationneeded pc this w =
     (case negotiation_try pc this w of
        (outcome, this1, w1) \<Rightarrow> (this1\<lparr>makingOffer := False\<rparr>, w1))"

text \<open>
  \<open>handleOffer\<close>. Every step after the collision test is inside the \<open>try\<close>; an
  exception ends the handler where it is raised.
\<close>

definition handleOffer ::
  "('w, 'd) rtc \<Rightarrow> signalingManager \<Rightarrow> 'w \<Rightarrow> 'd \<Rightarrow> signalingManager \<times> 'w" where
  "handleOffer pc this w offer =
     (let offerCollision = (makingOffer this \<or> signalingState pc w \<noteq> Stable);
          this1 = this\<lparr>ignoreOffer := (\<not> polite this \<and> offerCollision)\<rparr>
      in if ignoreOffer this1 then (this1, w)
         else
           (case (if offerCollision then setLocalDescription pc RollbackArg w else Inr w) of
              Inl err \<Rightarrow> (this1, w)
            | Inr w1 \<Rightarrow>
                (case setRemoteDescription pc offer w1 of
                   Inl err \<Rightarrow> (this1, w1)
                 | Inr w2 \<Rightarrow>
                     (case setLocalDescription pc NoArgument w2 of
                        Inl err \<Rightarrow> (this1, w2)
                      | Inr w3 \<Rightarrow>
                          (case emit pc (EmitAnswer (sm_roomId this1) (sm_peerId this1)
                                           (localDescription pc w3)
                                           (sm_userId this1) (sm_username this1)) w3 of
                             Inl err \<Rightarrow> (this1, w3)
                           | Inr w4 \<Rightarrow> (this1, w4))))))"

section \<open>VoiceEngine\<close>

text \<open>
  The engine keeps one \<open>Map\<close> per concern, all keyed by the peer's socket id, and a
  \<open>Set\<close> of the peers whose key exchange is acknowledged (\<open>secureChannels\<close>, the
  \<open>secureAck\<close> flag of a peer link). \<open>RTCPeerConnection\<close> and \<open>RTCDataChannel\<close>
  objects are shared between the maps, the signaling manager and the closures of their
  handlers, so they live in two stores (lists, the address is the index, \<open>new\<close> appends)
  and the maps hold addresses. \<open>dataChannels\<close> is iterated by
  \<open>broadcastEncryptedAudio\<close>, so it is an association list in insertion order:
  \<open>AList.update\<close> keeps the position of a key that is present and appends a new one, as
  \<open>Map.prototype.set\<close> does.

  Each handler is modelled as one atomic step (the source's handlers are \<open>async\<close>; the
  model does not interleave two handlers at an \<open>await\<close>).

  What the engine does to the outside is recorded in \<open>effects\<close>, in the order of the
  calls: frames given to \<open>encryptAudioAES\<close> and \<open>decryptAudioAES\<close>, messages given to
  \<open>dataChannel.send\<close> (only sends that did not raise), frames started on the audio
  output, and the callbacks to the user interface.
\<close>

datatype dc_message =
    KeyMsg "byte list"                  \<comment> \<open>\<open>{type: 'key', payload}\<close>\<close>
  | KeyAckMsg                           \<comment> \<open>\<open>{type: 'key-ack'}\<close>\<close>
  | AudioMsg "byte list" "byte list"    \<comment> \<open>\<open>{type: 'audio', iv, data}\<close>\<close>
  | OtherMsg                            \<comment> \<open>JSON of any other \<open>type\<close>\<close>
  | NotJson                             \<comment> \<open>\<open>JSON.parse\<close> raises\<close>

datatype effect =
    AesEncrypt peer
  | AesDecrypt peer
  | Sent peer dc_message
  | Played peer "byte list"
  | PeerSpeakingChange peer bool
  | ParticipantJoined "string option" string peer
  | ParticipantLeft "string option" string peer

fun effect_peer :: "effect \<Rightarrow> peer" where
  "effect_peer (AesEncrypt p) = p"
| "effect_peer (AesDecrypt p) = p"
| "effect_peer (Sent p m) = p"
| "effect_peer (Played p f) = p"
| "effect_peer (PeerSpeakingChange p b) = p"
| "effect_peer (ParticipantJoined i n p) = p"
| "effect_peer (ParticipantLeft i n p) = p"

datatype readyState = RS_connecting | RS_open | RS_closing | RS_closed

record dataChannel =
  readyState :: readyState
  bufferedAmount :: nat
  dc_peerId :: peer        \<comment> \<open>\<open>peerId\<close> in the closures set by \<open>setupDataChannel\<close>\<close>
  dc_isInitiator :: bool   \<comment> \<open>\<open>isInitiator\<close> in the same closures\<close>

record 'jwk peerConnection =
  publicKey :: "'jwk option"   \<comment> \<open>\<open>peerConnection.publicKey\<close>, \<open>None\<close> when falsy\<close>
  pc_closed :: bool            \<comment> \<open>\<open>close()\<close> has been called\<close>
  ondatachannel :: bool        \<comment> \<open>the \<open>ondatachannel\<close> handler is installed\<close>

record ('jwk, 'key) voiceEngine =
  pcStore :: "'jwk peerConnection list"
  dcStore :: "dataChannel list"
  peerConnections :: "peer \<rightharpoonup> nat"
  dataChannels :: "(peer \<times> nat) list"
  signalingManagers :: "peer \<rightharpoonup> signalingManager"
  peerSessionKeys :: "peer \<rightharpoonup> 'key"
  secureChannels :: "peer set"
  audioNodes :: "peer set"
  peerSpeakingState :: "peer \<rightharpoonup> bool"
  peerMuteState :: "peer \<rightharpoonup> bool"
  currentRoom :: "string option"
  userId :: "string option"
  username :: "string option"
  audioContext :: bool         \<comment> \<open>\<open>this.audioContext\<close> is not null\<close>
  socketId :: "string option"  \<comment> \<open>\<open>this.socket?.id\<close>\<close>
  draws :: nat                 \<comment> \<open>how many times a random primitive has been called\<close>
  effects :: "effect list"

text \<open>The constructor, with \<open>audioContext\<close> as \<open>initialize\<close> leaves it.\<close>

definition new_VoiceEngine :: "('jwk, 'key) voiceEngine" where
  "new_VoiceEngine =
     \<lparr>pcStore = [], dcStore = [], peerConnections = Map.empty, dataChannels = [],
      signalingManagers = Map.empty, peerSessionKeys = Map.empty, secureChannels = {},
      audioNodes = {}, peerSpeakingState = Map.empty, peerMuteState = Map.empty,
      currentRoom = None, userId = None, username = None, audioContext = True,
      socketId = None, draws = 0, effects = []\<rparr>"

text \<open>
  The imported \<open>cryptoService\<close>, as the engine uses it. \<open>cs_generateSessionKey\<close> and
  \<open>cs_encryptAudioAES\<close> draw random bytes, so they take the number of draws so far
  (\<open>draws\<close>) as the index of the call. \<open>JSON.parse\<close> of a public key kept as a string happens in
  the same \<open>try\<close> as \<open>encryptSessionKey\<close> and is part of \<open>cs_encryptSessionKey\<close>.
\<close>

record ('jwk, 'key) cryptoService =
  cs_generateSessionKey :: "nat \<Rightarrow> error + 'key"
  cs_encryptSessionKey :: "'key \<Rightarrow> 'jwk \<Rightarrow> error + byte list"
  cs_decryptSessionKey :: "byte list \<Rightarrow> error + 'key"
  cs_encryptAudioAES :: "nat \<Rightarrow> byte list \<Rightarrow> 'key \<Rightarrow> error + byte list"
  cs_decryptAudioAES :: "byte list \<Rightarrow> 'key \<Rightarrow> error + byte list"

text \<open>
  \<open>RTCDataChannel.send\<close> raises \<open>InvalidStateError\<close> unless the channel is open.
\<close>

definition dc_send :: "dataChannel \<Rightarrow> dc_message \<Rightarrow> error + unit" where
  "dc_send dataChannel message =
     (if readyState dataChannel = RS_open then Inr () else Inl InvalidStateError)"

text \<open>\<open>RTCDataChannel.close\<close>: the channel starts closing unless it already is.\<close>

definition dc_close :: "dataChannel \<Rightarrow> dataChannel" where
  "dc_close dataChannel =
     (if readyState dataChannel = RS_closing \<or> readyState dataChannel = RS_closed
      then dataChannel else dataChannel\<lparr>readyState := RS_closing\<rparr>)"

text \<open>
  \<open>setupDataChannel\<close> registers the channel under the peer and installs the three
  handlers, whose closures hold \<open>peerId\<close> and \<open>isInitiator\<close>.
\<close>

definition setupDataChannel ::
  "('jwk, 'key) voiceEngine \<Rightarrow> nat \<Rightarrow> peer \<Rightarrow> bool \<Rightarrow> ('jwk, 'key) voiceEngine" where
  "setupDataChannel this dataChannel peerId isInitiator =
     this\<lparr>dataChannels := AList.update peerId dataChannel (dataChannels this),
          dcStore := (dcStore this)[dataChannel :=
             (dcStore this ! dataChannel)\<lparr>dc_peerId := peerId, dc_isInitiator := isInitiator\<rparr>]\<rparr>"

text \<open>
  \<open>createPeerConnection\<close>. \<open>new RTCPeerConnection\<close> and \<open>createDataChannel\<close> allocate
  in the stores. The function returns the new connection.
\<close>

definition createPeerConnection ::
  "('jwk, 'key) voiceEngine \<Rightarrow> peer \<Rightarrow> string option \<Rightarrow> string option \<Rightarrow> 'jwk option \<Rightarrow> bool \<Rightarrow>
   ('jwk, 'key) voiceEngine \<times> nat" where
  "createPeerConnection this peerId odileId username' publicKey' isInitiator =
     (let peerConnection = length (pcStore this);
          this1 = this\<lparr>pcStore := pcStore this @
                          [\<lparr>publicKey = publicKey', pc_closed = False, ondatachannel = False\<rparr>],
                       peerConnections := (peerConnections this)(peerId \<mapsto> peerConnection)\<rparr>;
          polite' = (\<not> isInitiator);
          signalingManager = SignalingManager peerConnection peerId (currentRoom this1)
                               (userId this1) (username this1) polite';
          this2 = this1\<lparr>signalingManagers := (signalingManagers this1)(peerId \<mapsto> signalingManager)\<rparr>
      in if isInitiator then
           (let dataChannel = length (dcStore this2);
                this3 = this2\<lparr>dcStore := dcStore this2 @
                                 [\<lparr>readyState = RS_connecting, bufferedAmount = 0,
                                   dc_peerId = peerId, dc_isInitiator = True\<rparr>]\<rparr>
            in (setupDataChannel this3 dataChannel peerId True, peerConnection))
         else
           (this2\<lparr>pcStore := (pcStore this2)[peerConnection :=
                      (pcStore this2 ! peerConnection)\<lparr>ondatachannel := True\<rparr>]\<rparr>,
            peerConnection))"

text \<open>
  The payload of the relay's \<open>user-joined\<close> and \<open>user-left\<close> events. A field is
  \<open>None\<close> when it is missing; \<open>!socketId\<close> also holds for the empty string.
\<close>

record 'jwk user_event =
  ev_userId :: "string option"
  ev_username :: "string option"
  ev_socketId :: "string option"
  ev_publicKey :: "'jwk option"

definition falsy :: "string option \<Rightarrow> bool" where
  "falsy s = (s = None \<or> s = Some [])"

definition or_Unknown :: "string option \<Rightarrow> string" where
  "or_Unknown s = (if falsy s then ''Unknown'' else the s)"

text \<open>\<open>socket.on('user-joined', ...)\<close>\<close>

definition on_user_joined ::
  "('jwk, 'key) voiceEngine \<Rightarrow> 'jwk user_event \<Rightarrow> ('jwk, 'key) voiceEngine" where
  "on_user_joined this data =
     (if falsy (ev_socketId data) then this
      else
        (let socketId = the (ev_socketId data);
             (this1, peerConnection) =
                createPeerConnection this socketId (ev_userId data) (ev_username data)
                  (ev_publicKey data) False
         in this1\<lparr>effects := effects this1 @
               [ParticipantJoined (ev_userId data) (or_Unknown (ev_username data)) socketId]\<rparr>))"

text \<open>
  One element of the \<open>room-participants\<close> list, as its loop handles it: a peer that
  was in the room before the local user.
\<close>

definition on_room_participant ::
  "('jwk, 'key) voiceEngine \<Rightarrow> 'jwk user_event \<Rightarrow> ('jwk, 'key) voiceEngine" where
  "on_room_participant this participant =
     (if falsy (ev_socketId participant) \<or> ev_socketId participant = socketId this then this
      else fst (createPeerConnection this (the (ev_socketId participant)) (ev_userId participant)
                  (Some (or_Unknown (ev_username participant))) (ev_publicKey participant) True))"

text \<open>\<open>closePeerConnection\<close>\<close>

definition closePeerConnection ::
  "('jwk, 'key) voiceEngine \<Rightarrow> peer \<Rightarrow> ('jwk, 'key) voiceEngine" where
  "closePeerConnection this peerId =
     (let this1 =
            (case peerConnections this peerId of
               None \<Rightarrow> this
             | Some peerConnection \<Rightarrow>
                 this\<lparr>pcStore := (pcStore this)[peerConnection :=
                          (pcStore this ! peerConnection)\<lparr>pc_closed := True\<rparr>],
                      peerConnections := (peerConnections this)(peerId := None)\<rparr>);
          this2 =
            (case map_of (dataChannels this1) peerId of
               None \<Rightarrow> this1
             | Some dataChannel \<Rightarrow>
                 this1\<lparr>dcStore := (dcStore this1)[dataChannel :=
                           dc_close (dcStore this1 ! dataChannel)],
                       dataChannels := AList.delete peerId (dataChannels this1)\<rparr>)
      in this2\<lparr>audioNodes := audioNodes this2 - {peerId},
               peerSpeakingState := (peerSpeakingState this2)(peerId := None)\<rparr>)"

text \<open>\<open>socket.on('user-left', ...)\<close>\<close>

definition on_user_left ::
  "('jwk, 'key) voiceEngine \<Rightarrow> 'jwk user_event \<Rightarrow> ('jwk, 'key) voiceEngine" where
  "on_user_left this data =
     (if falsy (ev_socketId data) then this
      else
        (let socketId = the (ev_socketId data);
             this1 = closePeerConnection this socketId;
             this2 = this1\<lparr>peerSpeakingState := (peerSpeakingState this1)(socketId := None),
                          peerMuteState := (peerMuteState this1)(socketId := None)\<rparr>
         in this2\<lparr>effects := effects this2 @
               [ParticipantLeft (ev_userId data) (or_Unknown (ev_username data)) socketId]\<rparr>))"

text \<open>
  \<open>peerConnection.onconnectionstatechange\<close>, for the peer in its closure and the
  state the browser reports.
\<close>

datatype connectionState =
  CS_new | CS_connecting | CS_connected | CS_disconnected | CS_failed | CS_closed

definition onconnectionstatechange ::
  "('jwk, 'key) voiceEngine \<Rightarrow> peer \<Rightarrow> connectionState \<Rightarrow> ('jwk, 'key) voiceEngine" where
  "onconnectionstatechange this peerId state =
     (if state = CS_failed \<or> state = CS_disconnected then
        this\<lparr>peerSessionKeys := (peerSessionKeys this)(peerId := None),
             secureChannels := secureChannels this - {peerId},
             signalingManagers := (signalingManagers this)(peerId := None)\<rparr>
      else this)"

text \<open>
  \<open>dataChannel.onopen\<close>: only the initiator makes a key, and only when the peer's
  public key is known and no key is stored for the peer. The key is stored before it is
  wrapped and sent; an exception after that leaves it stored.
\<close>

definition dataChannel_onopen ::
  "('jwk, 'key) cryptoService \<Rightarrow> ('jwk, 'key) voiceEngine \<Rightarrow> nat \<Rightarrow> ('jwk, 'key) voiceEngine" where
  "dataChannel_onopen cryptoService this dataChannel =
     (let peerId = dc_peerId (dcStore this ! dataChannel);
          isInitiator = dc_isInitiator (dcStore this ! dataChannel)
      in if isInitiator then
           (case peerConnections this peerId of
              None \<Rightarrow> this
            | Some peerConnection \<Rightarrow>
                (case publicKey (pcStore this ! peerConnection) of
                   None \<Rightarrow> this
                 | Some publicKeyJwk \<Rightarrow>
                     (if peerSessionKeys this peerId \<noteq> None then this
                      else
                        (let this1 = this\<lparr>draws := Suc (draws this)\<rparr> in
                         case cs_generateSessionKey cryptoService (draws this) of
                           Inl e \<Rightarrow> this1
                         | Inr sessionKey \<Rightarrow>
                             (let this2 = this1\<lparr>peerSessionKeys :=
                                                   (peerSessionKeys this1)(peerId \<mapsto> sessionKey)\<rparr>
                              in case cs_encryptSessionKey cryptoService sessionKey publicKeyJwk of
                                   Inl e \<Rightarrow> this2
                                 | Inr encryptedSessionKey \<Rightarrow>
                                     (case dc_send (dcStore this2 ! dataChannel)
                                             (KeyMsg encryptedSessionKey) of
                                        Inl e \<Rightarrow> this2
                                      | Inr u \<Rightarrow>
                                          this2\<lparr>effects := effects this2 @
                                             [Sent peerId (KeyMsg encryptedSessionKey)]\<rparr>))))))
         else this)"

text \<open>\<open>dataChannel.onclose\<close>\<close>

definition dataChannel_onclose ::
  "('jwk, 'key) voiceEngine \<Rightarrow> nat \<Rightarrow> ('jwk, 'key) voiceEngine" where
  "dataChannel_onclose this dataChannel =
     (let peerId = dc_peerId (dcStore this ! dataChannel)
      in this\<lparr>dataChannels := AList.delete peerId (dataChannels this),
              secureChannels := secureChannels this - {peerId}\<rparr>)"

text \<open>
  \<open>playAudio\<close>: without an audio context nothing is played. Otherwise
  \<open>createBuffer(1, audioData.length, ...)\<close> raises for a frame of no samples (a sample
  is four bytes), and a frame with samples is started on the peer's gain node, which is
  created on first use.
\<close>

definition playAudio ::
  "('jwk, 'key) voiceEngine \<Rightarrow> byte list \<Rightarrow> peer \<Rightarrow> error + ('jwk, 'key) voiceEngine" where
  "playAudio this audioData peerId =
     (if \<not> audioContext this then Inr this
      else if length audioData div 4 = 0 then Inl NotSupportedError
      else Inr (this\<lparr>audioNodes := insert peerId (audioNodes this),
                     effects := effects this @ [Played peerId audioData]\<rparr>))"

text \<open>
  \<open>handleIncomingAudio\<close>. The only test before decryption is that a session key is
  stored for the peer. \<open>new Float32Array(decryptedBuffer)\<close> raises when the length is
  not a multiple of 4. Whether the decoded samples exceed \<open>SPEAKING_THRESHOLD\<close> is
  floating-point arithmetic on the frame and is the parameter \<open>isPeerSpeaking\<close>. Every
  exception is caught and logged.
\<close>

definition handleIncomingAudio ::
  "('jwk, 'key) cryptoService \<Rightarrow> (byte list \<Rightarrow> bool) \<Rightarrow> ('jwk, 'key) voiceEngine \<Rightarrow>
   byte list \<Rightarrow> byte list \<Rightarrow> peer \<Rightarrow> ('jwk, 'key) voiceEngine" where
  "handleIncomingAudio cryptoService isPeerSpeaking this iv ciphertext peerId =
     (case peerSessionKeys this peerId of
        None \<Rightarrow> this
      | Some sessionKey \<Rightarrow>
          (let combined = iv @ ciphertext;
               this1 = this\<lparr>effects := effects this @ [AesDecrypt peerId]\<rparr>
           in case cs_decryptAudioAES cryptoService combined sessionKey of
                Inl e \<Rightarrow> this1
              | Inr decryptedBuffer \<Rightarrow>
                  (if length decryptedBuffer mod 4 \<noteq> 0 then this1
                   else
                     (let audioData = decryptedBuffer;
                          wasSpeaking = (case peerSpeakingState this1 peerId of
                                           None \<Rightarrow> False | Some b \<Rightarrow> b);
                          this2 =
                            (if isPeerSpeaking audioData \<noteq> wasSpeaking then
                               this1\<lparr>peerSpeakingState := (peerSpeakingState this1)
                                         (peerId \<mapsto> isPeerSpeaking audioData),
                                     effects := effects this1 @
                                         [PeerSpeakingChange peerId (isPeerSpeaking audioData)]\<rparr>
                             else this1)
                      in case playAudio this2 audioData peerId of
                           Inl e \<Rightarrow> this2
                         | Inr this3 \<Rightarrow> this3))))"

text \<open>
  \<open>dataChannel.onmessage\<close>, for the channel at address \<open>dataChannel\<close> and the message
  \<open>event.data\<close> after \<open>JSON.parse\<close>.
\<close>

definition dataChannel_onmessage ::
  "('jwk, 'key) cryptoService \<Rightarrow> (byte list \<Rightarrow> bool) \<Rightarrow> ('jwk, 'key) voiceEngine \<Rightarrow> nat \<Rightarrow>
   dc_message \<Rightarrow> ('jwk, 'key) voiceEngine" where
  "dataChannel_onmessage cryptoService isPeerSpeaking this dataChannel msg =
     (let peerId = dc_peerId (dcStore this ! dataChannel) in
      case msg of
        KeyMsg payload \<Rightarrow>
          (case cs_decryptSessionKey cryptoService payload of
             Inl e \<Rightarrow> this
           | Inr sessionKey \<Rightarrow>
               (let this1 = this\<lparr>peerSessionKeys := (peerSessionKeys this)(peerId \<mapsto> sessionKey)\<rparr>
                in case dc_send (dcStore this1 ! dataChannel) KeyAckMsg of
                     Inl e \<Rightarrow> this1
                   | Inr u \<Rightarrow>
                       this1\<lparr>effects := effects this1 @ [Sent peerId KeyAckMsg],
                             secureChannels := insert peerId (secureChannels this1)\<rparr>))
      | KeyAckMsg \<Rightarrow> this\<lparr>secureChannels := insert peerId (secureChannels this)\<rparr>
      | AudioMsg iv data \<Rightarrow>
          handleIncomingAudio cryptoService isPeerSpeaking this iv data peerId
      | OtherMsg \<Rightarrow> this
      | NotJson \<Rightarrow> this)"

text \<open>
  \<open>broadcastEncryptedAudio\<close>: the body of the loop for one entry of \<open>dataChannels\<close>,
  and the loop.
\<close>

definition broadcast_to ::
  "('jwk, 'key) cryptoService \<Rightarrow> byte list \<Rightarrow> peer \<times> nat \<Rightarrow> ('jwk, 'key) voiceEngine \<Rightarrow>
   ('jwk, 'key) voiceEngine" where
  "broadcast_to cryptoService audioData entry this =
     (let peerId = fst entry; dataChannel = dcStore this ! snd entry in
      if peerId \<notin> secureChannels this then this
      else if readyState dataChannel = RS_open \<and> bufferedAmount dataChannel < 16384 then
        (case peerSessionKeys this peerId of
           None \<Rightarrow> this
         | Some sessionKey \<Rightarrow>
             (let this1 = this\<lparr>draws := Suc (draws this),
                              effects := effects this @ [AesEncrypt peerId]\<rparr>
              in case cs_encryptAudioAES cryptoService (draws this) audioData sessionKey of
                   Inl e \<Rightarrow> this1
                 | Inr fullBuffer \<Rightarrow>
                     (let iv = js_slice fullBuffer 0 12;
                          ciphertext = js_slice_from fullBuffer 12;
                          message = AudioMsg iv ciphertext
                      in case dc_send dataChannel message of
                           Inl e \<Rightarrow> this1
                         | Inr u \<Rightarrow> this1\<lparr>effects := effects this1 @ [Sent peerId message]\<rparr>)))
      else this)"

definition broadcastEncryptedAudio ::
  "('jwk, 'key) cryptoService \<Rightarrow> ('jwk, 'key) voiceEngine \<Rightarrow> byte list \<Rightarrow>
   ('jwk, 'key) voiceEngine" where
  "broadcastEncryptedAudio cryptoService this audioData =
     fold (broadcast_to cryptoService audioData) (dataChannels this) this"

section \<open>The engine's crypto service and its surroundings\<close>

text \<open>
  The \<open>cryptoService\<close> singleton as the engine sees it, built from the functions
  above and the primitives of the branch in use. \<open>prim_randomBytes P i\<close> is the random
  generator at the \<open>i\<close>-th draw. The engine hands \<open>encryptAudioAES\<close> the
  \<open>ArrayBuffer\<close> of the captured frame (\<open>audioData.buffer\<close> in
  \<open>setupAudioProcessor\<close>).
\<close>

record ('jwk, 'pub, 'priv, 'key) primitives =
  prim_useNative :: bool
  prim_privateKey :: "'priv option"     \<comment> \<open>\<open>this.keyPair?.privateKey\<close>\<close>
  prim_importKey :: "'jwk \<Rightarrow> error + 'pub"
  prim_rsaEncrypt :: "'pub \<Rightarrow> nat \<Rightarrow> byte list \<Rightarrow> error + byte list"
  prim_rsaDecrypt :: "'priv \<Rightarrow> byte list \<Rightarrow> error + byte list"
  prim_generateKey :: "nat \<Rightarrow> error + 'key"
  prim_exportSessionKey :: "'key \<Rightarrow> error + byte list"
  prim_importSessionKey :: "byte list \<Rightarrow> error + 'key"
  prim_randomBytes :: "nat \<Rightarrow> nat \<Rightarrow> byte"
  prim_subtleEncrypt :: "'key \<Rightarrow> byte list \<Rightarrow> byte list \<Rightarrow> error + byte list"
  prim_subtleDecrypt :: "'key \<Rightarrow> byte list \<Rightarrow> byte list \<Rightarrow> error + byte list"
  prim_forgeCipher :: "'key \<Rightarrow> byte list \<Rightarrow> byte list \<Rightarrow> error + byte list \<times> byte list"
  prim_forgeDecipher :: "'key \<Rightarrow> byte list \<Rightarrow> byte list \<Rightarrow> byte list \<Rightarrow> error + bool \<times> byte list"

definition cryptoService_of ::
  "('jwk, 'pub, 'priv, 'key) primitives \<Rightarrow> ('jwk, 'key) cryptoService" where
  "cryptoService_of P =
     \<lparr>cs_generateSessionKey = prim_generateKey P,
      cs_encryptSessionKey = encryptSessionKey (prim_exportSessionKey P) (prim_importKey P) (prim_rsaEncrypt P),
      cs_decryptSessionKey = decryptSessionKey (prim_importSessionKey P) (prim_rsaDecrypt P) (prim_privateKey P),
      cs_encryptAudioAES = (\<lambda>i audioData.
         encryptAudioAES (prim_useNative P) (prim_randomBytes P i) (prim_subtleEncrypt P)
           (prim_forgeCipher P) (ArrayBuffer audioData)),
      cs_decryptAudioAES = decryptAudioAES (prim_useNative P) (prim_subtleDecrypt P) (prim_forgeDecipher P)\<rparr>"

text \<open>
  The browser opens a data channel (\<open>readyState\<close> becomes \<open>'open'\<close>) and then fires
  \<open>onopen\<close>.
\<close>

definition channel_opens ::
  "('jwk, 'key) cryptoService \<Rightarrow> ('jwk, 'key) voiceEngine \<Rightarrow> nat \<Rightarrow> ('jwk, 'key) voiceEngine" where
  "channel_opens cryptoService this dataChannel =
     dataChannel_onopen cryptoService
       (this\<lparr>dcStore := (dcStore this)[dataChannel :=
                 (dcStore this ! dataChannel)\<lparr>readyState := RS_open\<rparr>]\<rparr>) dataChannel"

section \<open>Stand-ins for the browser, used to run the handlers on concrete inputs\<close>

text \<open>
  Toy primitives: RSA-OAEP reverses the bytes, AES-GCM is the identity with a constant
  16-byte tag, keys are their raw bytes, the \<open>i\<close>-th generated key is four bytes
  \<open>i\<close>, random bytes are zero.
\<close>

definition toy_primitives :: "(nat, nat, nat, byte list) primitives" where
  "toy_primitives =
     \<lparr>prim_useNative = True, prim_privateKey = Some 0, prim_importKey = Inr,
      prim_rsaEncrypt = (\<lambda>pub i m. Inr (rev m)), prim_rsaDecrypt = (\<lambda>priv c. Inr (rev c)),
      prim_generateKey = (\<lambda>i. Inr (replicate 4 (of_nat i))),
      prim_exportSessionKey = Inr, prim_importSessionKey = Inr,
      prim_randomBytes = (\<lambda>i j. 0),
      prim_subtleEncrypt = (\<lambda>k iv p. Inr (p @ replicate 16 0)),
      prim_subtleDecrypt = (\<lambda>k iv c. Inr (take (length c - 16) c)),
      prim_forgeCipher = (\<lambda>k iv p. Inr (p, replicate 16 0)),
      prim_forgeDecipher = (\<lambda>k iv c t. Inr (True, c))\<rparr>"

definition toy_crypto :: "(nat, byte list) cryptoService" where
  "toy_crypto = cryptoService_of toy_primitives"

text \<open>
  A toy peer connection and socket: descriptions are strings, the empty string is an
  invalid description that \<open>setRemoteDescription\<close> rejects, and \<open>emit\<close> appends to an
  outbox.
\<close>

record toy_world =
  tw_state :: signalingState
  tw_local :: string
  tw_remote :: string
  tw_outbox :: "string signal list"

definition toy_rtc :: "(toy_world, string) rtc" where
  "toy_rtc =
     \<lparr>signalingState = tw_state,
      localDescription = tw_local,
      setLocalDescription = (\<lambda>arg w.
         case arg of
           RollbackArg \<Rightarrow> Inr (w\<lparr>tw_state := Stable, tw_local := []\<rparr>)
         | NoArgument \<Rightarrow>
             (if tw_state w = HaveRemoteOffer
              then Inr (w\<lparr>tw_state := Stable, tw_local := ''answer''\<rparr>)
              else Inr (w\<lparr>tw_state := HaveLocalOffer, tw_local := ''offer''\<rparr>))),
      setRemoteDescription = (\<lambda>d w.
         if d = [] then Inl (OperationError ''invalid description'')
         else Inr (w\<lparr>tw_state := HaveRemoteOffer, tw_remote := d\<rparr>)),
      emit = (\<lambda>m w. Inr (w\<lparr>tw_outbox := tw_outbox w @ [m]\<rparr>))\<rparr>"

definition toy_world0 :: toy_world where
  "toy_world0 = \<lparr>tw_state = Stable, tw_local = [], tw_remote = [], tw_outbox = []\<rparr>"

text \<open>
  The local user is in a room with one peer, socket \<open>s2\<close>, found in the
  \<open>room-participants\<close> list; the data channel to it has opened, so the local side has
  generated, stored and sent the session key, and no \<open>key-ack\<close> has arrived yet.
\<close>

definition peer2 :: "nat user_event" where
  "peer2 = \<lparr>ev_userId = Some ''u2'', ev_username = Some ''bob'', ev_socketId = Some ''s2'',
            ev_publicKey = Some 7\<rparr>"

definition engine_key_sent :: "(nat, byte list) voiceEngine" where
  "engine_key_sent = channel_opens toy_crypto (on_room_participant new_VoiceEngine peer2) 0"

text \<open>The same engine after the peer's \<open>key-ack\<close> has arrived.\<close>

definition engine_acked :: "(nat, byte list) voiceEngine" where
  "engine_acked = dataChannel_onmessage toy_crypto (\<lambda>frame. False) engine_key_sent 0 KeyAckMsg"

section \<open>Predicates used to state the properties\<close>

text \<open>
  A matching RSA-OAEP key pair, as far as wrapping needs it: the public key imports, and
  every plaintext of at most \<open>MAX_CHUNK_SIZE\<close> bytes encrypts, on any call, to a
  ciphertext (shorter than \<open>2 ^ 32\<close> bytes; 256 bytes for a 2048-bit key) that the
  private key decrypts to the same plaintext.
\<close>

definition rsa_key_pair ::
  "('jwk \<Rightarrow> error + 'pub) \<Rightarrow> ('pub \<Rightarrow> nat \<Rightarrow> byte list \<Rightarrow> error + byte list) \<Rightarrow>
   ('priv \<Rightarrow> byte list \<Rightarrow> error + byte list) \<Rightarrow> 'jwk \<Rightarrow> 'priv \<Rightarrow> bool" where
  "rsa_key_pair importKey rsaEncrypt rsaDecrypt jwk priv =
     (\<exists>pub. importKey jwk = Inr pub \<and>
        (\<forall>i m. length m \<le> MAX_CHUNK_SIZE \<longrightarrow>
           (\<exists>c. rsaEncrypt pub i m = Inr c \<and> length c < 2 ^ 32 \<and> rsaDecrypt priv c = Inr m)))"

text \<open>
  A length-prefixed stream is cut short when, reading it from the front, fewer than four
  bytes are left for a length prefix, or a declared length (the little-endian value of
  the four bytes) is larger than what is left behind the prefix. This is stated on
  the remaining bytes, not on offsets.
\<close>

definition le32_value :: "byte list \<Rightarrow> nat" where
  "le32_value bs = foldr (\<lambda>b acc. unat b + 256 * acc) bs 0"

inductive truncated_stream :: "byte list \<Rightarrow> bool" where
  prefix_cut: "bs \<noteq> [] \<Longrightarrow> length bs < 4 \<Longrightarrow> truncated_stream bs"
| chunk_cut: "4 \<le> length bs \<Longrightarrow> length bs - 4 < le32_value (take 4 bs) \<Longrightarrow> truncated_stream bs"
| later_cut: "4 \<le> length bs \<Longrightarrow> le32_value (take 4 bs) \<le> length bs - 4 \<Longrightarrow>
              truncated_stream (drop (4 + le32_value (take 4 bs)) bs) \<Longrightarrow> truncated_stream bs"


text \<open>
  A correct AES-GCM primitive under a key, for each branch: with a 12-byte nonce,
  encryption gives the ciphertext and a 16-byte tag (appended by the browser, apart in
  node-forge), and decryption of these under the same nonce gives the plaintext back.
\<close>

definition aes_gcm_native ::
  "('key \<Rightarrow> byte list \<Rightarrow> byte list \<Rightarrow> error + byte list) \<Rightarrow>
   ('key \<Rightarrow> byte list \<Rightarrow> byte list \<Rightarrow> error + byte list) \<Rightarrow> 'key \<Rightarrow> bool" where
  "aes_gcm_native subtleEncrypt subtleDecrypt key =
     (\<forall>iv p. length iv = 12 \<longrightarrow>
        (\<exists>ct tag. subtleEncrypt key iv p = Inr (ct @ tag) \<and> length tag = 16
                  \<and> subtleDecrypt key iv (ct @ tag) = Inr p))"

definition aes_gcm_forge ::
  "('key \<Rightarrow> byte list \<Rightarrow> byte list \<Rightarrow> error + byte list \<times> byte list) \<Rightarrow>
   ('key \<Rightarrow> byte list \<Rightarrow> byte list \<Rightarrow> byte list \<Rightarrow> error + bool \<times> byte list) \<Rightarrow> 'key \<Rightarrow> bool" where
  "aes_gcm_forge forgeCipher forgeDecipher key =
     (\<forall>iv p. length iv = 12 \<longrightarrow>
        (\<exists>ct tag. forgeCipher key iv p = Inr (ct, tag) \<and> length tag = 16
                  \<and> forgeDecipher key iv ct tag = Inr (True, p)))"


text \<open>
  The collision test of \<open>handleOffer\<close> and the answer it emits, named so that the
  properties can refer to them.
\<close>

definition offerCollision :: "('w, 'd) rtc \<Rightarrow> signalingManager \<Rightarrow> 'w \<Rightarrow> bool" where
  "offerCollision pc this w = (makingOffer this \<or> signalingState pc w \<noteq> Stable)"

definition answer_signal :: "('w, 'd) rtc \<Rightarrow> signalingManager \<Rightarrow> 'w \<Rightarrow> 'd signal" where
  "answer_signal pc this w =
     EmitAnswer (sm_roomId this) (sm_peerId this) (localDescription pc w)
       (sm_userId this) (sm_username this)"

section \<open>Properties of the CryptoService\<close>

lemma js_slice_nat:
  "js_slice xs (int a) (int b) = take (min b (length xs) - a) (drop a xs)"
  by (auto simp: js_slice_def Let_def min_def nat_diff_distrib' )

lemma unat_byte_of_nat: "unat (of_nat (n mod 256) :: byte) = n mod 256"
  by (simp add: unat_of_nat)

lemma le32_digits:
  assumes "(n::nat) < 2 ^ 32"
  shows "n mod 256 + 256 * (n div 256 mod 256) + 65536 * (n div 65536 mod 256)
           + 16777216 * (n div 16777216 mod 256) = n"
proof -
  define n1 where "n1 = n div 256"
  define n2 where "n2 = n1 div 256"
  define n3 where "n3 = n2 div 256"
  have d2: "n div 65536 = n2" and d3: "n div 16777216 = n3"
    by (simp_all add: n1_def n2_def n3_def div_mult2_eq)
  have "n3 < 256"
    unfolding d3 [symmetric] using assms by (intro less_mult_imp_div_less) simp
  then have m3: "n3 mod 256 = n3" by simp
  have s0: "n = n mod 256 + 256 * n1" by (simp add: n1_def)
  have s1: "n1 = n1 mod 256 + 256 * n2" by (simp add: n2_def)
  have s2: "n2 = n2 mod 256 + 256 * n3" by (simp add: n3_def)
  have "n mod 256 + 256 * (n1 mod 256) + 65536 * (n2 mod 256) + 16777216 * n3 = n"
    using s0 s1 s2 by linarith
  then show ?thesis
    by (simp add: d2 d3 m3 n1_def [symmetric])
qed

lemma getUint32_setUint32:
  assumes "(n::nat) < 2 ^ 32"
  shows "getUint32_le (pre @ setUint32_le n @ rest) (length pre) = Inr n"
proof -
  have "n div 16777216 < 256"
    using assms by (intro less_mult_imp_div_less) simp
  with le32_digits [OF assms] show ?thesis
    by (simp add: getUint32_le_def setUint32_le_def nth_append unat_of_nat)
qed

lemma length_setUint32 [simp]: "length (setUint32_le n) = 4"
  by (simp add: setUint32_le_def)

lemma Promise_all_map:
  "(\<And>x. x \<in> set xs \<Longrightarrow> f x = Inr (g x)) \<Longrightarrow> Promise_all (map f xs) = Inr (map g xs)"
  by (induction xs) auto

lemma parse_chunks_frames:
  "(\<And>c. c \<in> set cs \<Longrightarrow> length c < 2 ^ 32) \<Longrightarrow>
   parse_chunks (pre @ length_prefixed cs) (length pre) acc = Inr (acc @ cs)"
proof (induction cs arbitrary: pre acc)
  case Nil
  show ?case by (simp add: length_prefixed_def parse_chunks.simps)
next
  case (Cons c cs)
  let ?buf = "pre @ setUint32_le (length c) @ c @ length_prefixed cs"
  have buf: "pre @ length_prefixed (c # cs) = ?buf"
    by (simp add: length_prefixed_def)
  have len: "getUint32_le ?buf (length pre) = Inr (length c)"
    using getUint32_setUint32 [of "length c" pre "c @ length_prefixed cs"] Cons.prems by simp
  have sl: "js_slice ?buf (int (length pre + 4)) (int (length pre + 4 + length c)) = c"
    unfolding js_slice_nat by simp
  have rest: "parse_chunks ((pre @ setUint32_le (length c) @ c) @ length_prefixed cs)
                (length (pre @ setUint32_le (length c) @ c)) (acc @ [c]) = Inr ((acc @ [c]) @ cs)"
    using Cons.prems by (intro Cons.IH) simp
  show ?case
    unfolding buf
    apply (subst parse_chunks.simps)
    using rest by (simp add: len add.assoc del: of_nat_add) (simp only: sl [simplified add.assoc])
qed

lemma split_chunks_concat: "concat (split_chunks xs i) = drop i xs"
proof (induction xs i rule: split_chunks.induct)
  case (1 audioBytes i)
  show ?case
  proof (cases "i < length audioBytes")
    case True
    have "take (min (i + MAX_CHUNK_SIZE) (length audioBytes) - i) (drop i audioBytes)
            @ drop (i + MAX_CHUNK_SIZE) audioBytes = drop i audioBytes"
      by (metis add.commute append_take_drop_id diff_add_inverse drop_drop min_def take_all_iff length_drop le_diff_conv nat_le_linear)
    with True 1 show ?thesis
      by (subst split_chunks.simps) (simp add: js_slice_nat del: of_nat_add)
  next
    case False
    then show ?thesis by (subst split_chunks.simps) simp
  qed
qed

lemma split_chunks_length:
  "c \<in> set (split_chunks xs i) \<Longrightarrow> length c \<le> MAX_CHUNK_SIZE \<and> c \<noteq> []"
proof (induction xs i rule: split_chunks.induct)
  case (1 audioBytes i)
  show ?case
  proof (cases "i < length audioBytes")
    case True
    from "1.prems" True
    have "c = js_slice audioBytes (int i) (int (i + MAX_CHUNK_SIZE))
            \<or> c \<in> set (split_chunks audioBytes (i + MAX_CHUNK_SIZE))"
      by (subst (asm) split_chunks.simps) (simp del: of_nat_add)
    then show ?thesis
    proof
      assume "c = js_slice audioBytes (int i) (int (i + MAX_CHUNK_SIZE))"
      with True show ?thesis
        unfolding js_slice_nat MAX_CHUNK_SIZE_def by (auto simp add: min_def)
    next
      assume "c \<in> set (split_chunks audioBytes (i + MAX_CHUNK_SIZE))"
      with True "1.IH" show ?thesis by simp
    qed
  next
    case False
    with "1.prems" show ?thesis by (subst (asm) split_chunks.simps) simp
  qed
qed

lemma take4_drop:
  "off + 4 \<le> length buf \<Longrightarrow>
   take 4 (drop off buf) = [buf ! off, buf ! (off + 1), buf ! (off + 2), buf ! (off + 3)]"
  by (simp add: Cons_nth_drop_Suc [symmetric] numeral_eq_Suc)

lemma getUint32_le_value:
  "off + 4 \<le> length buf \<Longrightarrow> getUint32_le buf off = Inr (le32_value (take 4 (drop off buf)))"
  by (simp add: take4_drop getUint32_le_def le32_value_def)

lemma parse_chunks_truncated:
  "truncated_stream bs \<Longrightarrow> bs = drop off buf \<Longrightarrow>
   parse_chunks buf off acc = Inl InvalidEncryptedDataFormat
   \<or> parse_chunks buf off acc = Inl InvalidChunkLength"
proof (induction bs arbitrary: off acc rule: truncated_stream.induct)
  case (prefix_cut bs)
  then have "off < length buf" "length buf < off + 4" by auto
  then show ?case by (subst parse_chunks.simps) simp
next
  case (chunk_cut bs)
  then have b: "off + 4 \<le> length buf" "off < length buf" by auto
  from chunk_cut have "length buf < off + 4 + le32_value (take 4 (drop off buf))" by auto
  with b show ?case
    by (subst (2) parse_chunks.simps, subst parse_chunks.simps) (simp add: getUint32_le_value)
next
  case (later_cut bs)
  then have b: "off + 4 \<le> length buf" "off < length buf" by auto
  let ?n = "le32_value (take 4 (drop off buf))"
  from later_cut have fit: "off + 4 + ?n \<le> length buf" by auto
  have "drop (4 + le32_value (take 4 bs)) bs = drop (off + 4 + ?n) buf"
    using later_cut.prems by (simp add: ac_simps)
  then have ih: "parse_chunks buf (off + 4 + ?n) acc' = Inl InvalidEncryptedDataFormat
                 \<or> parse_chunks buf (off + 4 + ?n) acc' = Inl InvalidChunkLength" for acc'
    by (rule later_cut.IH)
  have step: "parse_chunks buf off acc =
        parse_chunks buf (off + 4 + ?n)
          (acc @ [js_slice buf (int (off + 4)) (int (off + 4 + ?n))])"
    using b fit by (subst parse_chunks.simps) (simp add: getUint32_le_value del: of_nat_add)
  show ?case unfolding step by (rule ih)
qed

text \<open>
  The parsing loop never places a \<open>DataView\<close> outside the buffer, and the cut-short
  streams are exactly the ones it rejects: every other stream is parsed.
\<close>

lemma parse_chunks_in_bounds: "parse_chunks buf off acc \<noteq> Inl RangeError"
proof (induction buf off acc rule: parse_chunks.induct)
  case (1 buf off acc)
  show ?case
  proof (cases "off < length buf \<and> off + 4 \<le> length buf")
    case False
    then show ?thesis by (subst parse_chunks.simps) auto
  next
    case True
    then have g: "getUint32_le buf off = Inr (le32_value (take 4 (drop off buf)))"
      by (simp add: getUint32_le_value)
    show ?thesis
    proof (cases "off + 4 + le32_value (take 4 (drop off buf)) > length buf")
      case over: True
      with True g show ?thesis by (subst parse_chunks.simps) simp
    next
      case fit: False
      with True g "1.IH" [of "le32_value (take 4 (drop off buf))"] show ?thesis
        by (subst parse_chunks.simps) (simp del: of_nat_add)
    qed
  qed
qed

lemma parse_chunks_complete:
  "\<not> truncated_stream (drop off buf) \<Longrightarrow> \<exists>cs. parse_chunks buf off acc = Inr cs"
proof (induction buf off acc rule: parse_chunks.induct)
  case (1 buf off acc)
  show ?case
  proof (cases "off < length buf")
    case False
    then show ?thesis by (subst parse_chunks.simps) simp
  next
    case True
    have four: "off + 4 \<le> length buf"
    proof (rule ccontr)
      assume "\<not> off + 4 \<le> length buf"
      with True have "truncated_stream (drop off buf)"
        by (intro truncated_stream.prefix_cut) auto
      with "1.prems" show False by simp
    qed
    let ?n = "le32_value (take 4 (drop off buf))"
    have g: "getUint32_le buf off = Inr ?n"
      using four by (simp add: getUint32_le_value)
    have fit: "off + 4 + ?n \<le> length buf"
    proof (rule ccontr)
      assume "\<not> off + 4 + ?n \<le> length buf"
      with four have "truncated_stream (drop off buf)"
        by (intro truncated_stream.chunk_cut) auto
      with "1.prems" show False by simp
    qed
    have rest: "\<not> truncated_stream (drop (off + 4 + ?n) buf)"
    proof
      assume t: "truncated_stream (drop (off + 4 + ?n) buf)"
      have "truncated_stream (drop off buf)"
      proof (rule truncated_stream.later_cut)
        show "4 \<le> length (drop off buf)" using four by simp
        show "?n \<le> length (drop off buf) - 4" using fit by simp
        show "truncated_stream (drop (4 + ?n) (drop off buf))"
          using t by (simp add: ac_simps)
      qed
      with "1.prems" show False by simp
    qed
    from "1.IH" [of ?n] True four g fit rest
    obtain cs where "parse_chunks buf (off + 4 + ?n)
        (acc @ [js_slice buf (int (off + 4)) (int (off + 4 + ?n))]) = Inr cs"
      by auto
    with True four g fit show ?thesis
      by (subst parse_chunks.simps) (simp del: of_nat_add)
  qed
qed

text \<open>
  Claim C4. A wrapped-key payload that is cut short (too few bytes left for a length
  prefix, or a declared chunk length that runs past the end of the buffer) makes
  \<open>decryptAudio\<close> fail with one of its two format errors. The result is never the
  \<open>RangeError\<close> of a read outside the buffer, and no chunk is decrypted.
\<close>

theorem decryptAudio_truncated:
  assumes "truncated_stream payload"
  shows "decryptAudio rsaDecrypt (Some priv) payload = Inl InvalidEncryptedDataFormat
         \<or> decryptAudio rsaDecrypt (Some priv) payload = Inl InvalidChunkLength"
  using parse_chunks_truncated [OF assms, of 0 payload "[]"]
  by (auto simp: decryptAudio_def)

text \<open>A stream that declares five bytes and holds one.\<close>

theorem decryptAudio_truncated_witness:
  "truncated_stream [5, 0, 0, 0, 1] \<and>
   decryptAudio (\<lambda>p c. Inr c) (Some (0::nat)) [5, 0, 0, 0, 1] = Inl InvalidChunkLength"
proof -
  have t: "truncated_stream [5, 0, 0, 0, 1]"
    by (rule truncated_stream.chunk_cut) (simp_all add: le32_value_def)
  have "decryptAudio (\<lambda>p c. Inr c) (Some (0::nat)) [5, 0, 0, 0, 1] \<noteq> Inl InvalidEncryptedDataFormat"
    by (simp add: decryptAudio_def parse_chunks.simps getUint32_le_def)
  with decryptAudio_truncated [OF t, of "\<lambda>p c. Inr c" "0::nat"] t show ?thesis by simp
qed

text \<open>
  Claim C3. For a matching key pair and any key bytes \<open>k\<close>, \<open>encryptAudio\<close>
  succeeds and \<open>decryptAudio\<close> of its result is \<open>k\<close> again. The wrapped bytes
  are what the claim describes: \<open>k\<close> is cut into chunks of at most 190 bytes, the
  \<open>i\<close>-th chunk is encrypted by the \<open>i\<close>-th call of the primitive, and each
  ciphertext stands behind its 4-byte little-endian length.
\<close>

theorem unwrapKey_wrapKey:
  assumes "rsa_key_pair importKey rsaEncrypt rsaDecrypt jwk priv"
  shows "\<exists>wrapped pub chunks encryptedChunks.
           encryptAudio importKey rsaEncrypt k jwk = Inr wrapped
         \<and> decryptAudio rsaDecrypt (Some priv) wrapped = Inr k
         \<and> importKey jwk = Inr pub
         \<and> concat chunks = k
         \<and> (\<forall>c \<in> set chunks. length c \<le> 190)
         \<and> length encryptedChunks = length chunks
         \<and> (\<forall>i < length chunks. rsaEncrypt pub i (chunks ! i) = Inr (encryptedChunks ! i))
         \<and> wrapped = concat (map (\<lambda>c. setUint32_le (length c) @ c) encryptedChunks)"
proof -
  from assms obtain pub where pub: "importKey jwk = Inr pub"
    and ex: "\<forall>i m. length m \<le> MAX_CHUNK_SIZE \<longrightarrow>
               (\<exists>c. rsaEncrypt pub i m = Inr c \<and> length c < 2 ^ 32 \<and> rsaDecrypt priv c = Inr m)"
    unfolding rsa_key_pair_def by blast
  from ex obtain f where f:
    "\<And>i m. length m \<le> MAX_CHUNK_SIZE \<Longrightarrow>
        rsaEncrypt pub i m = Inr (f i m) \<and> length (f i m) < 2 ^ 32 \<and> rsaDecrypt priv (f i m) = Inr m"
    by metis
  define chunks where "chunks = split_chunks k 0"
  define zs where "zs = zip [0 ..< length chunks] chunks"
  define cts where "cts = map (\<lambda>(i, chunk). f i chunk) zs"
  have small: "length c \<le> MAX_CHUNK_SIZE" if "c \<in> set chunks" for c
    using that split_chunks_length unfolding chunks_def by blast
  have zsmall: "length (snd z) \<le> MAX_CHUNK_SIZE" if "z \<in> set zs" for z
  proof -
    obtain i c where z: "z = (i, c)" by (cases z)
    with that have "c \<in> set chunks" unfolding zs_def by (auto dest: set_zip_rightD)
    with z small show ?thesis by simp
  qed
  have enc: "Promise_all (map (\<lambda>(i, chunk). rsaEncrypt pub i chunk) zs) = Inr cts"
    unfolding cts_def using zsmall f by (intro Promise_all_map) (auto simp: case_prod_beta)
  have wrapped: "encryptAudio importKey rsaEncrypt k jwk = Inr (length_prefixed cts)"
    by (simp add: encryptAudio_def Let_def pub enc chunks_def [symmetric] zs_def [symmetric])
  have snd_zs: "map snd zs = chunks"
    by (simp add: zs_def)
  have ctlen: "length c < 2 ^ 32" if "c \<in> set cts" for c
    using that zsmall f unfolding cts_def by (auto simp: case_prod_beta)
  have parse: "parse_chunks (length_prefixed cts) 0 [] = Inr cts"
    using parse_chunks_frames [of cts "[]" "[]"] ctlen by simp
  have "Promise_all (map (rsaDecrypt priv \<circ> (\<lambda>(i, chunk). f i chunk)) zs) = Inr (map snd zs)"
    using zsmall f by (intro Promise_all_map) (auto simp: case_prod_beta)
  then have dec: "Promise_all (map (rsaDecrypt priv) cts) = Inr chunks"
    by (simp add: cts_def snd_zs)
  have rt: "decryptAudio rsaDecrypt (Some priv) (length_prefixed cts) = Inr k"
    by (simp add: decryptAudio_def parse dec chunks_def split_chunks_concat)
  have "length cts = length chunks"
    by (simp add: cts_def zs_def)
  moreover have "\<forall>i < length chunks. rsaEncrypt pub i (chunks ! i) = Inr (cts ! i)"
    using small f by (simp add: cts_def zs_def)
  moreover have "concat chunks = k"
    by (simp add: chunks_def split_chunks_concat)
  moreover have "\<forall>c \<in> set chunks. length c \<le> 190"
    using small by (simp add: MAX_CHUNK_SIZE_def)
  ultimately show ?thesis
    using wrapped rt pub unfolding length_prefixed_def by blast
qed

text \<open>A toy pair (encryption and decryption reverse the bytes) and a 3-byte key.\<close>

theorem unwrapKey_wrapKey_witness:
  "rsa_key_pair Inr (\<lambda>p i m. Inr (rev m)) (\<lambda>p c. Inr (rev c)) (0::nat) (0::nat) \<and>
   (\<exists>wrapped. encryptAudio Inr (\<lambda>p i m. Inr (rev m)) [1, 2, 3] (0::nat) = Inr wrapped
      \<and> decryptAudio (\<lambda>p c. Inr (rev c)) (Some (0::nat)) wrapped = Inr [1, 2, 3])"
proof -
  have h: "rsa_key_pair Inr (\<lambda>p i m. Inr (rev m)) (\<lambda>p c. Inr (rev c)) (0::nat) (0::nat)"
    by (simp add: rsa_key_pair_def MAX_CHUNK_SIZE_def)
  from unwrapKey_wrapKey [OF h, of "[1, 2, 3]"] h show ?thesis by blast
qed

lemma js_slice_0:
  "js_slice xs 0 (int b) = take b xs"
  using js_slice_nat [of xs 0 b] by (simp add: min_def)

lemma js_slice_from_nat:
  "js_slice_from xs (int a) = drop a xs"
  unfolding js_slice_from_def js_slice_nat by simp

lemma slice_iv: "length iv = 12 \<Longrightarrow> js_slice (iv @ rest) 0 12 = iv"
  using js_slice_0 [of "iv @ rest" 12] by simp

lemma slice_rest: "length iv = 12 \<Longrightarrow> js_slice_from (iv @ rest) 12 = rest"
  using js_slice_from_nat [of "iv @ rest" 12] by simp

lemma js_slice_12:
  "js_slice xs 12 (int b) = take (min b (length xs) - 12) (drop 12 xs)"
  using js_slice_nat [of xs 12 b] by simp

lemma slice_ciphertext:
  assumes "length iv = 12" "length tag = 16"
  shows "js_slice (iv @ ct @ tag) 12 (int (length (iv @ ct @ tag)) - 16) = ct"
proof -
  have eq: "int (length (iv @ ct @ tag)) - 16 = int (12 + length ct)"
    using assms by simp
  show ?thesis
    unfolding eq js_slice_12 using assms by simp
qed

lemma slice_tag:
  assumes "length iv = 12" "length tag = 16"
  shows "js_slice_from (iv @ ct @ tag) (int (length (iv @ ct @ tag)) - 16) = tag"
proof -
  have eq: "int (length (iv @ ct @ tag)) - 16 = int (12 + length ct)"
    using assms by simp
  show ?thesis
    unfolding eq js_slice_from_nat using assms by simp
qed

lemma length_getRandomValues: "length (getRandomValues random n) = n"
  by (simp add: getRandomValues_def)

lemma getRandomValues_const: "getRandomValues (\<lambda>j. c) n = replicate n c"
  by (simp add: getRandomValues_def map_replicate_const)

text \<open>How \<open>decryptAudioAES\<close> takes a frame of nonce, ciphertext and tag apart.\<close>

lemma decryptAudioAES_native:
  assumes "length iv = 12"
  shows "decryptAudioAES True subtleDecrypt forgeDecipher (iv @ rest) k = subtleDecrypt k iv rest"
  by (simp add: decryptAudioAES_def slice_iv [OF assms] slice_rest [OF assms])

lemma decryptAudioAES_forge:
  assumes iv: "length iv = 12" and t: "length tag = 16"
  shows "decryptAudioAES False subtleDecrypt forgeDecipher (iv @ ct @ tag) k =
           (case forgeDecipher k iv ct tag of
              Inl e \<Rightarrow> Inl e
            | Inr (success, decrypted) \<Rightarrow>
                (if \<not> success then Inl AuthTagMismatch else Inr decrypted))"
  by (simp only: decryptAudioAES_def Let_def slice_iv [OF iv] slice_ciphertext [OF iv t]
        slice_tag [OF iv t]) simp

text \<open>
  With a correct AES-GCM primitive for the branch in use, \<open>encryptAudioAES\<close> returns a
  12-byte nonce, the ciphertext and a 16-byte tag, and \<open>decryptAudioAES\<close> gives the
  bytes of the frame back, in the native branch for every frame, in the fallback branch
  for every frame whose underlying buffer holds just the frame (an \<open>ArrayBuffer\<close>, or
  a typed array that covers its whole buffer).
\<close>

lemma decryptAES_encryptAES_whole:
  assumes aead: "if useNative then aes_gcm_native subtleEncrypt subtleDecrypt k
                 else aes_gcm_forge forgeCipher forgeDecipher k"
    and whole: "useNative \<or> buffer_or_self audioData = source_bytes audioData"
  shows "\<exists>iv ct tag.
           length iv = 12 \<and> length tag = 16
         \<and> encryptAudioAES useNative random subtleEncrypt forgeCipher audioData k
             = Inr (iv @ ct @ tag)
         \<and> decryptAudioAES useNative subtleDecrypt forgeDecipher (iv @ ct @ tag) k
             = Inr (source_bytes audioData)"
proof (cases useNative)
  case True
  let ?iv = "getRandomValues random 12"
  have iv: "length ?iv = 12" by (rule length_getRandomValues)
  from aead True iv obtain ct tag
    where e: "subtleEncrypt k ?iv (source_bytes audioData) = Inr (ct @ tag)"
      and t: "length tag = 16"
      and d: "subtleDecrypt k ?iv (ct @ tag) = Inr (source_bytes audioData)"
    unfolding aes_gcm_native_def by (metis (full_types))
  have "encryptAudioAES useNative random subtleEncrypt forgeCipher audioData k
          = Inr (?iv @ ct @ tag)"
    using True by (simp add: encryptAudioAES_def Let_def e)
  moreover have "decryptAudioAES useNative subtleDecrypt forgeDecipher (?iv @ ct @ tag) k
          = Inr (source_bytes audioData)"
    using True decryptAudioAES_native [OF iv, of subtleDecrypt forgeDecipher "ct @ tag" k] d by simp
  ultimately show ?thesis using iv t by blast
next
  case False
  let ?iv = "getRandomValues random 12"
  have iv: "length ?iv = 12" by (rule length_getRandomValues)
  from whole False have w: "buffer_or_self audioData = source_bytes audioData" by simp
  from aead False iv obtain ct tag
    where e: "forgeCipher k ?iv (source_bytes audioData) = Inr (ct, tag)"
      and t: "length tag = 16"
      and d: "forgeDecipher k ?iv ct tag = Inr (True, source_bytes audioData)"
    unfolding aes_gcm_forge_def by (metis (full_types))
  have "encryptAudioAES useNative random subtleEncrypt forgeCipher audioData k
          = Inr (?iv @ ct @ tag)"
    using False by (simp add: encryptAudioAES_def Let_def w e)
  moreover have "decryptAudioAES useNative subtleDecrypt forgeDecipher (?iv @ ct @ tag) k
          = Inr (source_bytes audioData)"
    using False decryptAudioAES_forge [OF iv t, of subtleDecrypt forgeDecipher ct k] d by simp
  ultimately show ?thesis using iv t by blast
qed

text \<open>The toy cipher of the fallback branch is a correct one.\<close>

lemma toy_forge_correct:
  "aes_gcm_forge (prim_forgeCipher toy_primitives) (prim_forgeDecipher toy_primitives) k"
  by (simp add: aes_gcm_forge_def toy_primitives_def)


section \<open>Properties of the SignalingManager\<close>

text \<open>
  Claim C9. Whatever the peer connection and the socket do in
  \<open>onnegotiationneeded\<close> (return or raise, at the local description or at the
  emit), \<open>makingOffer\<close> is true when the \<open>try\<close> block ends and false when the
  handler ends: the reset is in \<open>finally\<close>, on every path.
\<close>

theorem makingOffer_released:
  "makingOffer (fst (snd (negotiation_try pc this w)))
   \<and> \<not> makingOffer (fst (onnegotiationneeded pc this w))"
  by (simp add: onnegotiationneeded_def negotiation_try_def Let_def split: sum.splits prod.splits)

text \<open>
  Claim C2 as stated fails where a step of the \<open>try\<close> block raises. A polite
  manager in the stable state, not making an offer, receives an offer that
  \<open>setRemoteDescription\<close> rejects: the offer is not ignored, yet no description is
  applied and nothing is emitted.
\<close>

theorem handleOffer_unanswered_counterexample:
  "\<not> ignoreOffer (fst (handleOffer toy_rtc (SignalingManager 0 ''s2'' None None None True)
                          toy_world0 []))
   \<and> snd (handleOffer toy_rtc (SignalingManager 0 ''s2'' None None None True) toy_world0 [])
       = toy_world0
   \<and> tw_remote toy_world0 = [] \<and> tw_outbox toy_world0 = []"
  by (simp add: handleOffer_def toy_rtc_def toy_world0_def SignalingManager_def)

text \<open>What \<open>handleOffer\<close> does when the offer is not ignored.\<close>

lemma handleOffer_run:
  assumes "\<not> (\<not> polite this \<and> offerCollision pc this w)"
  shows "handleOffer pc this w offer =
     (this\<lparr>ignoreOffer := False\<rparr>,
      case (if offerCollision pc this w then setLocalDescription pc RollbackArg w else Inr w) of
        Inl err \<Rightarrow> w
      | Inr w1 \<Rightarrow>
          (case setRemoteDescription pc offer w1 of
             Inl err \<Rightarrow> w1
           | Inr w2 \<Rightarrow>
               (case setLocalDescription pc NoArgument w2 of
                  Inl err \<Rightarrow> w2
                | Inr w3 \<Rightarrow>
                    (case emit pc (answer_signal pc this w3) w3 of
                       Inl err \<Rightarrow> w3
                     | Inr w4 \<Rightarrow> w4))))"
proof -
  have flag: "(\<not> polite this \<and> (makingOffer this \<or> signalingState pc w \<noteq> Stable)) = False"
    using assms by (simp add: offerCollision_def)
  show ?thesis
    unfolding handleOffer_def Let_def answer_signal_def offerCollision_def flag
    by (simp split: sum.split)
qed

text \<open>
  Claim C2, amended. The collision is \<open>makingOffer\<close> or a signaling state other than
  stable. An impolite manager in a collision sets \<open>ignoreOffer\<close> and touches neither
  the connection nor the socket. In every other case \<open>ignoreOffer\<close> is false and the
  handler runs, in this order: the rollback of the local offer (only in a collision, so
  only when polite), \<open>setRemoteDescription\<close> with the offer, \<open>setLocalDescription\<close>
  for the answer, and the emit of the answer. When all of them succeed the remote
  description is applied and the answer is sent; when one raises, the handler stops
  there, with the effects of the steps before it and none of the later ones.
\<close>

theorem handleOffer_glare:
  "(\<not> polite this \<and> offerCollision pc this w \<longrightarrow>
      handleOffer pc this w offer = (this\<lparr>ignoreOffer := True\<rparr>, w))
   \<and> (polite this \<or> \<not> offerCollision pc this w \<longrightarrow>
        fst (handleOffer pc this w offer) = this\<lparr>ignoreOffer := False\<rparr>
      \<and> (\<forall>w1 w2 w3 w4.
            (if offerCollision pc this w then setLocalDescription pc RollbackArg w else Inr w) = Inr w1
            \<longrightarrow> setRemoteDescription pc offer w1 = Inr w2
            \<longrightarrow> setLocalDescription pc NoArgument w2 = Inr w3
            \<longrightarrow> emit pc (answer_signal pc this w3) w3 = Inr w4
            \<longrightarrow> snd (handleOffer pc this w offer) = w4)
      \<and> (\<forall>err.
            (if offerCollision pc this w then setLocalDescription pc RollbackArg w else Inr w) = Inl err
            \<longrightarrow> snd (handleOffer pc this w offer) = w)
      \<and> (\<forall>w1 err.
            (if offerCollision pc this w then setLocalDescription pc RollbackArg w else Inr w) = Inr w1
            \<longrightarrow> setRemoteDescription pc offer w1 = Inl err
            \<longrightarrow> snd (handleOffer pc this w offer) = w1)
      \<and> (\<forall>w1 w2 err.
            (if offerCollision pc this w then setLocalDescription pc RollbackArg w else Inr w) = Inr w1
            \<longrightarrow> setRemoteDescription pc offer w1 = Inr w2
            \<longrightarrow> setLocalDescription pc NoArgument w2 = Inl err
            \<longrightarrow> snd (handleOffer pc this w offer) = w2)
      \<and> (\<forall>w1 w2 w3 err.
            (if offerCollision pc this w then setLocalDescription pc RollbackArg w else Inr w) = Inr w1
            \<longrightarrow> setRemoteDescription pc offer w1 = Inr w2
            \<longrightarrow> setLocalDescription pc NoArgument w2 = Inr w3
            \<longrightarrow> emit pc (answer_signal pc this w3) w3 = Inl err
            \<longrightarrow> snd (handleOffer pc this w offer) = w3))"
proof (cases "\<not> polite this \<and> offerCollision pc this w")
  case True
  then show ?thesis
    by (simp add: handleOffer_def offerCollision_def Let_def)
next
  case False
  let ?prepared = "if offerCollision pc this w then setLocalDescription pc RollbackArg w else Inr w"
  note run = handleOffer_run [OF False, of offer]
  have flag: "fst (handleOffer pc this w offer) = this\<lparr>ignoreOffer := False\<rparr>"
    by (simp add: run)
  have ok: "snd (handleOffer pc this w offer) = w4"
    if "?prepared = Inr w1" "setRemoteDescription pc offer w1 = Inr w2"
       "setLocalDescription pc NoArgument w2 = Inr w3"
       "emit pc (answer_signal pc this w3) w3 = Inr w4" for w1 w2 w3 w4
    using that by (simp add: run)
  have f1: "snd (handleOffer pc this w offer) = w" if "?prepared = Inl err" for err
    using that by (simp add: run)
  have f2: "snd (handleOffer pc this w offer) = w1"
    if "?prepared = Inr w1" "setRemoteDescription pc offer w1 = Inl err" for w1 err
    using that by (simp add: run)
  have f3: "snd (handleOffer pc this w offer) = w2"
    if "?prepared = Inr w1" "setRemoteDescription pc offer w1 = Inr w2"
       "setLocalDescription pc NoArgument w2 = Inl err" for w1 w2 err
    using that by (simp add: run)
  have f4: "snd (handleOffer pc this w offer) = w3"
    if "?prepared = Inr w1" "setRemoteDescription pc offer w1 = Inr w2"
       "setLocalDescription pc NoArgument w2 = Inr w3"
       "emit pc (answer_signal pc this w3) w3 = Inl err" for w1 w2 w3 err
    using that by (simp add: run)
  from False flag ok f1 f2 f3 f4 show ?thesis by blast
qed

text \<open>A polite manager that is making an offer when the remote offer arrives.\<close>

theorem handleOffer_glare_witness:
  "polite ((SignalingManager 0 ''s2'' None None None True)\<lparr>makingOffer := True\<rparr>)
   \<and> offerCollision toy_rtc ((SignalingManager 0 ''s2'' None None None True)\<lparr>makingOffer := True\<rparr>)
         (toy_world0\<lparr>tw_state := HaveLocalOffer, tw_local := ''offer''\<rparr>)
   \<and> snd (handleOffer toy_rtc ((SignalingManager 0 ''s2'' None None None True)\<lparr>makingOffer := True\<rparr>)
         (toy_world0\<lparr>tw_state := HaveLocalOffer, tw_local := ''offer''\<rparr>) ''v=0'')
       = \<lparr>tw_state = Stable, tw_local = ''answer'', tw_remote = ''v=0'',
          tw_outbox = [EmitAnswer None ''s2'' ''answer'' None None]\<rparr>"
  using handleOffer_glare [of "(SignalingManager 0 ''s2'' None None None True)\<lparr>makingOffer := True\<rparr>"
      toy_rtc "toy_world0\<lparr>tw_state := HaveLocalOffer, tw_local := ''offer''\<rparr>" "''v=0''"]
  by (simp add: offerCollision_def answer_signal_def toy_rtc_def toy_world0_def
        SignalingManager_def)

section \<open>Properties of the VoiceEngine\<close>

text \<open>The concrete engines, evaluated.\<close>

lemma toy_generate: "cs_generateSessionKey toy_crypto 0 = Inr [0, 0, 0, 0]"
  by (simp add: toy_crypto_def cryptoService_of_def toy_primitives_def numeral_eq_Suc)

lemma split_small: "0 < length k \<Longrightarrow> length k \<le> 190 \<Longrightarrow> split_chunks k 0 = [k]"
  by (subst split_chunks.simps, subst split_chunks.simps)
     (simp add: js_slice_def MAX_CHUNK_SIZE_def)

lemma toy_wrap: "cs_encryptSessionKey toy_crypto [0, 0, 0, 0] 7 = Inr [4, 0, 0, 0, 0, 0, 0, 0]"
  by (simp add: toy_crypto_def cryptoService_of_def toy_primitives_def encryptSessionKey_def
      encryptAudio_def split_small length_prefixed_def setUint32_le_def)

lemma room_eq:
  "on_room_participant new_VoiceEngine peer2 =
     \<lparr>pcStore = [\<lparr>publicKey = Some 7, pc_closed = False, ondatachannel = False\<rparr>],
      dcStore = [\<lparr>readyState = RS_connecting, bufferedAmount = 0, dc_peerId = ''s2'',
                 dc_isInitiator = True\<rparr>],
      peerConnections = [''s2'' \<mapsto> 0], dataChannels = [(''s2'', 0)],
      signalingManagers = [''s2'' \<mapsto> SignalingManager 0 ''s2'' None None None False],
      peerSessionKeys = Map.empty, secureChannels = {}, audioNodes = {},
      peerSpeakingState = Map.empty, peerMuteState = Map.empty, currentRoom = None,
      userId = None, username = None, audioContext = True, socketId = None, draws = 0,
      effects = []\<rparr>"
  by (simp add: on_room_participant_def peer2_def new_VoiceEngine_def falsy_def
      createPeerConnection_def setupDataChannel_def Let_def)

lemma engine_key_sent_eq:
  "engine_key_sent =
     \<lparr>pcStore = [\<lparr>publicKey = Some 7, pc_closed = False, ondatachannel = False\<rparr>],
      dcStore = [\<lparr>readyState = RS_open, bufferedAmount = 0, dc_peerId = ''s2'',
                 dc_isInitiator = True\<rparr>],
      peerConnections = [''s2'' \<mapsto> 0], dataChannels = [(''s2'', 0)],
      signalingManagers = [''s2'' \<mapsto> SignalingManager 0 ''s2'' None None None False],
      peerSessionKeys = [''s2'' \<mapsto> [0, 0, 0, 0]], secureChannels = {}, audioNodes = {},
      peerSpeakingState = Map.empty, peerMuteState = Map.empty, currentRoom = None,
      userId = None, username = None, audioContext = True, socketId = None, draws = Suc 0,
      effects = [Sent ''s2'' (KeyMsg [4, 0, 0, 0, 0, 0, 0, 0])]\<rparr>"
  by (simp add: engine_key_sent_def channel_opens_def room_eq dataChannel_onopen_def
      toy_generate toy_wrap dc_send_def Let_def)

lemma createPeerConnection_manager:
  "signalingManagers (fst (createPeerConnection this peerId odileId uname pk isInitiator)) =
     (signalingManagers this)(peerId \<mapsto>
        SignalingManager (length (pcStore this)) peerId (currentRoom this) (userId this)
          (username this) (\<not> isInitiator))"
  by (simp add: createPeerConnection_def setupDataChannel_def Let_def)

lemma on_user_joined_managers:
  assumes "\<not> falsy (ev_socketId data)"
  shows "signalingManagers (on_user_joined this data) =
           signalingManagers (fst (createPeerConnection this (the (ev_socketId data))
              (ev_userId data) (ev_username data) (ev_publicKey data) False))"
  using assms by (simp add: on_user_joined_def Let_def split: prod.splits)

text \<open>
  Claim C6 as stated fails: after \<open>user-joined\<close> for a new peer, the manager created
  for it is polite.
\<close>

theorem user_joined_role_counterexample:
  "map_option polite
     (signalingManagers (on_user_joined (new_VoiceEngine :: (nat, byte list) voiceEngine) peer2) ''s2'')
   = Some True"
proof -
  have "\<not> falsy (ev_socketId peer2)"
    by (simp add: peer2_def falsy_def)
  then show ?thesis
    by (simp add: on_user_joined_managers createPeerConnection_manager SignalingManager_def)
       (simp add: peer2_def)
qed

text \<open>
  Claim C6, amended. The \<open>user-joined\<close> handler calls \<open>createPeerConnection\<close> with
  \<open>isInitiator = false\<close>, and \<open>polite = !isInitiator\<close>: the manager it creates is
  polite. The impolite role goes to the managers created for the peers of the
  \<open>room-participants\<close> list, where \<open>isInitiator\<close> is true.
\<close>

theorem user_joined_role:
  "(\<not> falsy (ev_socketId data) \<longrightarrow>
      map_option polite (signalingManagers (on_user_joined this data) (the (ev_socketId data)))
        = Some True)
   \<and> (\<not> falsy (ev_socketId data) \<and> ev_socketId data \<noteq> socketId this \<longrightarrow>
      map_option polite (signalingManagers (on_room_participant this data) (the (ev_socketId data)))
        = Some False)"
  by (simp add: on_user_joined_managers on_room_participant_def createPeerConnection_manager
        SignalingManager_def)

text \<open>The peer \<open>s2\<close>, once as a newcomer and once as a participant found in the room.\<close>

theorem user_joined_role_witness:
  "\<not> falsy (ev_socketId peer2) \<and> ev_socketId peer2 \<noteq> socketId (new_VoiceEngine :: (nat, byte list) voiceEngine)
   \<and> map_option polite (signalingManagers (on_user_joined (new_VoiceEngine :: (nat, byte list) voiceEngine) peer2)
        (the (ev_socketId peer2))) = Some True
   \<and> map_option polite (signalingManagers (on_room_participant (new_VoiceEngine :: (nat, byte list) voiceEngine) peer2)
        (the (ev_socketId peer2))) = Some False"
  using user_joined_role [of peer2 "new_VoiceEngine :: (nat, byte list) voiceEngine"]
  by (simp add: peer2_def falsy_def new_VoiceEngine_def)

text \<open>
  \<open>closePeerConnection\<close> and the \<open>user-left\<close> handler never touch
  \<open>peerSessionKeys\<close>; the handler of a failed connection deletes the peer's key.
\<close>

lemma closePeerConnection_keys:
  "peerSessionKeys (closePeerConnection this peerId) = peerSessionKeys this"
  by (simp add: closePeerConnection_def Let_def split: option.splits)

lemma on_user_left_keys:
  "peerSessionKeys (on_user_left this data) = peerSessionKeys this"
  by (simp add: on_user_left_def Let_def closePeerConnection_keys)

lemma connection_failed_discards_key:
  "peerSessionKeys (onconnectionstatechange this peerId CS_failed) peerId = None"
  by (simp add: onconnectionstatechange_def)

text \<open>
  Claim C7 at a concrete input. The engine has generated and sent a session key for peer
  \<open>s2\<close>; then the relay reports that \<open>s2\<close> left. The connection is closed and
  removed, the data channel is closing and removed, and the session key of \<open>s2\<close> is
  still stored.
\<close>

theorem user_left_keeps_session_key:
  "peerSessionKeys engine_key_sent ''s2'' = Some [0, 0, 0, 0]
   \<and> peerSessionKeys (on_user_left engine_key_sent peer2) ''s2'' = Some [0, 0, 0, 0]
   \<and> peerConnections (on_user_left engine_key_sent peer2) ''s2'' = None
   \<and> map_of (dataChannels (on_user_left engine_key_sent peer2)) ''s2'' = None
   \<and> pc_closed (pcStore (on_user_left engine_key_sent peer2) ! 0)
   \<and> readyState (dcStore (on_user_left engine_key_sent peer2) ! 0) = RS_closing"
  by (simp add: on_user_left_keys)
     (simp add: engine_key_sent_eq on_user_left_def closePeerConnection_def peer2_def falsy_def
        dc_close_def Let_def)

text \<open>
  Claim C8 as stated fails: \<open>createPeerConnection\<close> for a peer that has a live link
  is not a no-op. A second connection and a second data channel are allocated and the
  peer's entries point to them.
\<close>

theorem createPeerConnection_again_counterexample:
  "peerConnections engine_key_sent ''s2'' = Some 0
   \<and> dataChannels engine_key_sent = [(''s2'', 0)]
   \<and> peerConnections (fst (createPeerConnection engine_key_sent ''s2'' (Some ''u2'')
         (Some ''bob'') (Some 7) True)) ''s2'' = Some 1
   \<and> dataChannels (fst (createPeerConnection engine_key_sent ''s2'' (Some ''u2'')
         (Some ''bob'') (Some 7) True)) = [(''s2'', 1)]
   \<and> length (pcStore (fst (createPeerConnection engine_key_sent ''s2'' (Some ''u2'')
         (Some ''bob'') (Some 7) True))) = 2"
  by (simp add: engine_key_sent_eq createPeerConnection_def setupDataChannel_def Let_def)

text \<open>
  Claim C8, amended. \<open>createPeerConnection\<close> has no guard: every call allocates a new
  connection and a new manager and stores them under the peer identifier, replacing what
  was stored there (as initiator also a new data channel); the connections allocated
  before are left as they were, not closed. Since every map is keyed by the peer
  identifier, there is still one registered link per identifier: the keys of
  \<open>dataChannels\<close> stay distinct.
\<close>

theorem createPeerConnection_replaces:
  "snd (createPeerConnection this peerId odileId uname pk isInitiator) = length (pcStore this)
   \<and> peerConnections (fst (createPeerConnection this peerId odileId uname pk isInitiator))
       = (peerConnections this)(peerId \<mapsto> length (pcStore this))
   \<and> signalingManagers (fst (createPeerConnection this peerId odileId uname pk isInitiator))
       = (signalingManagers this)(peerId \<mapsto>
            SignalingManager (length (pcStore this)) peerId (currentRoom this) (userId this)
              (username this) (\<not> isInitiator))
   \<and> take (length (pcStore this))
         (pcStore (fst (createPeerConnection this peerId odileId uname pk isInitiator)))
       = pcStore this
   \<and> length (pcStore (fst (createPeerConnection this peerId odileId uname pk isInitiator)))
       = Suc (length (pcStore this))
   \<and> map_of (dataChannels (fst (createPeerConnection this peerId odileId uname pk isInitiator)))
       = (if isInitiator then (map_of (dataChannels this))(peerId \<mapsto> length (dcStore this))
          else map_of (dataChannels this))
   \<and> (distinct (map fst (dataChannels this)) \<longrightarrow>
        distinct (map fst (dataChannels
          (fst (createPeerConnection this peerId odileId uname pk isInitiator)))))"
  by (simp add: createPeerConnection_def setupDataChannel_def Let_def update_conv'
        distinct_update)

text \<open>The second creation for \<open>s2\<close>.\<close>

theorem createPeerConnection_replaces_witness:
  "distinct (map fst (dataChannels engine_key_sent))
   \<and> peerConnections engine_key_sent ''s2'' = Some 0
   \<and> peerConnections (fst (createPeerConnection engine_key_sent ''s2'' (Some ''u2'')
         (Some ''bob'') (Some 7) True)) ''s2'' = Some 1
   \<and> distinct (map fst (dataChannels (fst (createPeerConnection engine_key_sent ''s2''
         (Some ''u2'') (Some ''bob'') (Some 7) True))))"
  using createPeerConnection_replaces [of engine_key_sent "''s2''" "Some ''u2''" "Some ''bob''"
      "Some 7" True]
  by (simp add: engine_key_sent_eq)

text \<open>
  Claim C10. A \<open>key\<close> message whose payload unwraps to a session key, arriving on an
  open data channel, always stores that key for the channel's peer (replacing any key
  stored before), sends \<open>key-ack\<close> and adds the peer to \<open>secureChannels\<close>. Nothing
  is required of the state before: not that no key is stored, not that the peer is not
  yet secure.
\<close>

theorem key_message_rekeys:
  assumes "cs_decryptSessionKey cryptoService payload = Inr sessionKey"
    and "readyState (dcStore this ! dataChannel) = RS_open"
  shows "peerSessionKeys (dataChannel_onmessage cryptoService spk this dataChannel (KeyMsg payload))
           = (peerSessionKeys this)(dc_peerId (dcStore this ! dataChannel) \<mapsto> sessionKey)
       \<and> effects (dataChannel_onmessage cryptoService spk this dataChannel (KeyMsg payload))
           = effects this @ [Sent (dc_peerId (dcStore this ! dataChannel)) KeyAckMsg]
       \<and> secureChannels (dataChannel_onmessage cryptoService spk this dataChannel (KeyMsg payload))
           = insert (dc_peerId (dcStore this ! dataChannel)) (secureChannels this)"
  using assms by (simp add: dataChannel_onmessage_def dc_send_def Let_def)

text \<open>A second key for \<open>s2\<close>, arriving after the first one is stored.\<close>

lemma toy_unwrap:
  "cs_decryptSessionKey toy_crypto [4, 0, 0, 0, 9, 9, 9, 9] = Inr [9, 9, 9, 9]"
proof -
  have "parse_chunks ([] @ length_prefixed [[9, 9, 9, 9]]) (length ([] :: byte list)) []
          = Inr ([] @ [[9, 9, 9, 9]])"
    by (rule parse_chunks_frames) simp
  then have "parse_chunks [4, 0, 0, 0, 9, 9, 9, 9] 0 [] = Inr [[9, 9, 9, 9]]"
    by (simp add: length_prefixed_def setUint32_le_def)
  then show ?thesis
    by (simp add: toy_crypto_def cryptoService_of_def toy_primitives_def decryptSessionKey_def
          decryptAudio_def)
qed

theorem key_message_rekeys_witness:
  "cs_decryptSessionKey toy_crypto [4, 0, 0, 0, 9, 9, 9, 9] = Inr [9, 9, 9, 9]
   \<and> readyState (dcStore engine_key_sent ! 0) = RS_open
   \<and> peerSessionKeys engine_key_sent ''s2'' = Some [0, 0, 0, 0]
   \<and> peerSessionKeys (dataChannel_onmessage toy_crypto (\<lambda>frame. False) engine_key_sent 0
         (KeyMsg [4, 0, 0, 0, 9, 9, 9, 9])) ''s2'' = Some [9, 9, 9, 9]
   \<and> ''s2'' \<in> secureChannels (dataChannel_onmessage toy_crypto (\<lambda>frame. False) engine_key_sent 0
         (KeyMsg [4, 0, 0, 0, 9, 9, 9, 9]))"
proof -
  have o: "readyState (dcStore engine_key_sent ! 0) = RS_open"
    by (simp add: engine_key_sent_eq)
  have p: "dc_peerId (dcStore engine_key_sent ! 0) = ''s2''"
    by (simp add: engine_key_sent_eq)
  have k: "peerSessionKeys engine_key_sent ''s2'' = Some [0, 0, 0, 0]"
    by (simp add: engine_key_sent_eq)
  from key_message_rekeys [OF toy_unwrap o, of "\<lambda>frame. False"] toy_unwrap o k
  show ?thesis by (simp add: p)
qed

text \<open>
  One round of the loop of \<open>broadcastEncryptedAudio\<close> leaves \<open>secureChannels\<close> as it
  is, and what it does concerns a peer of \<open>secureChannels\<close>.
\<close>

lemma broadcast_to_secure:
  "secureChannels (broadcast_to cryptoService audioData entry this) = secureChannels this"
  by (simp add: broadcast_to_def Let_def split: option.splits sum.splits)

lemma broadcast_to_effects:
  "\<exists>new. effects (broadcast_to cryptoService audioData entry this) = effects this @ new
         \<and> (\<forall>x \<in> set new. effect_peer x \<in> secureChannels this)"
proof (cases "fst entry \<in> secureChannels this")
  case False
  then show ?thesis by (simp add: broadcast_to_def Let_def)
next
  case True
  have "effects (broadcast_to cryptoService audioData entry this) = effects this
      \<or> effects (broadcast_to cryptoService audioData entry this)
           = effects this @ [AesEncrypt (fst entry)]
      \<or> (\<exists>m. effects (broadcast_to cryptoService audioData entry this)
           = effects this @ [AesEncrypt (fst entry), Sent (fst entry) m])"
    by (simp add: broadcast_to_def Let_def split: option.splits sum.splits)
  then consider
      "effects (broadcast_to cryptoService audioData entry this) = effects this @ []"
    | "effects (broadcast_to cryptoService audioData entry this)
         = effects this @ [AesEncrypt (fst entry)]"
    | m where "effects (broadcast_to cryptoService audioData entry this)
         = effects this @ [AesEncrypt (fst entry), Sent (fst entry) m]"
    by auto
  then show ?thesis
  proof cases
    case 1
    then show ?thesis by (intro exI [of _ "[]"]) simp
  next
    case 2
    with True show ?thesis by (intro exI [of _ "[AesEncrypt (fst entry)]"]) simp
  next
    case 3
    with True show ?thesis
      by (intro exI [of _ "[AesEncrypt (fst entry), Sent (fst entry) m]"]) simp
  qed
qed

lemma fold_broadcast_effects:
  "\<exists>new. effects (fold (broadcast_to cryptoService audioData) entries this) = effects this @ new
         \<and> (\<forall>x \<in> set new. effect_peer x \<in> secureChannels this)"
proof (induction entries arbitrary: this)
  case Nil
  show ?case by simp
next
  case (Cons entry entries)
  let ?this1 = "broadcast_to cryptoService audioData entry this"
  obtain new1 where n1: "effects ?this1 = effects this @ new1"
    "\<forall>x \<in> set new1. effect_peer x \<in> secureChannels this"
    using broadcast_to_effects by blast
  obtain new2 where n2:
    "effects (fold (broadcast_to cryptoService audioData) entries ?this1) = effects ?this1 @ new2"
    "\<forall>x \<in> set new2. effect_peer x \<in> secureChannels ?this1"
    using Cons.IH by blast
  have "effects (fold (broadcast_to cryptoService audioData) (entry # entries) this)
          = effects this @ (new1 @ new2)"
    by (simp add: n1 n2)
  moreover have "\<forall>x \<in> set (new1 @ new2). effect_peer x \<in> secureChannels this"
    using n1 n2 by (auto simp: broadcast_to_secure)
  ultimately show ?case by blast
qed

text \<open>
  Claim C1 as stated fails on the receiving side. The initiator has stored and sent the
  key and has not received \<open>key-ack\<close>; an \<open>audio\<close> message from the peer is
  decrypted and played.
\<close>

theorem audio_before_ack_counterexample:
  "''s2'' \<notin> secureChannels engine_key_sent
   \<and> effects (dataChannel_onmessage toy_crypto (\<lambda>frame. False) engine_key_sent 0
        (AudioMsg (replicate 12 0) ([1, 2, 3, 4] @ replicate 16 0)))
       = effects engine_key_sent @ [AesDecrypt ''s2'', Played ''s2'' [1, 2, 3, 4]]"
proof -
  have d: "cs_decryptAudioAES toy_crypto (replicate 12 0 @ [1, 2, 3, 4] @ replicate 16 0)
             [0, 0, 0, 0] = Inr [1, 2, 3, 4]"
    by (simp add: toy_crypto_def cryptoService_of_def toy_primitives_def decryptAudioAES_def
          slice_rest)
  then have d': "cs_decryptAudioAES toy_crypto (replicate 12 0 @ 1 # 2 # 3 # 4 # replicate 16 0)
             [0, 0, 0, 0] = Inr [1, 2, 3, 4]"
    by simp
  show ?thesis
    by (simp add: engine_key_sent_eq dataChannel_onmessage_def handleIncomingAudio_def
          playAudio_def Let_def d')
qed

text \<open>
  Claim C1, amended. Sending is gated on \<open>secureAck\<close>: everything
  \<open>broadcastEncryptedAudio\<close> encrypts or sends is for a peer of \<open>secureChannels\<close>.
  Receiving is gated on the session key: an \<open>audio\<close> message that arrives while no
  session key is stored for the peer is dropped, with no decryption, no playback and no
  change of state.
\<close>

theorem audio_gates:
  "(\<exists>new. effects (broadcastEncryptedAudio cryptoService this audioData) = effects this @ new
          \<and> (\<forall>x \<in> set new. effect_peer x \<in> secureChannels this))
   \<and> (peerSessionKeys this (dc_peerId (dcStore this ! dataChannel)) = None \<longrightarrow>
        dataChannel_onmessage cryptoService spk this dataChannel (AudioMsg iv data) = this)"
  using fold_broadcast_effects [of cryptoService audioData "dataChannels this" this]
  by (simp add: broadcastEncryptedAudio_def dataChannel_onmessage_def handleIncomingAudio_def
        Let_def)

text \<open>
  After \<open>key-ack\<close> a frame is encrypted and sent to \<open>s2\<close>; before any key is stored
  an inbound frame is dropped.
\<close>

lemma engine_acked_eq:
  "engine_acked = engine_key_sent\<lparr>secureChannels := {''s2''}\<rparr>"
  by (simp add: engine_acked_def dataChannel_onmessage_def engine_key_sent_eq)

lemma toy_encrypt_frame:
  "cs_encryptAudioAES toy_crypto i [1, 2, 3, 4] k = Inr (replicate 12 0 @ [1, 2, 3, 4] @ replicate 16 0)"
  by (simp add: toy_crypto_def cryptoService_of_def toy_primitives_def encryptAudioAES_def
        getRandomValues_const)

lemma toy_frame_split:
  "js_slice (replicate 12 (0::byte) @ rest) 0 12 = replicate 12 0"
  "js_slice_from (replicate 12 (0::byte) @ rest) 12 = rest"
  by (simp_all add: slice_iv slice_rest)

theorem audio_gates_witness:
  "''s2'' \<in> secureChannels engine_acked
   \<and> effects (broadcastEncryptedAudio toy_crypto engine_acked [1, 2, 3, 4])
       = effects engine_acked @
           [AesEncrypt ''s2'', Sent ''s2'' (AudioMsg (replicate 12 0) ([1, 2, 3, 4] @ replicate 16 0))]
   \<and> peerSessionKeys (on_room_participant new_VoiceEngine peer2)
         (dc_peerId (dcStore (on_room_participant new_VoiceEngine peer2) ! 0)) = None
   \<and> dataChannel_onmessage toy_crypto (\<lambda>frame. False) (on_room_participant new_VoiceEngine peer2) 0
         (AudioMsg (replicate 12 0) ([1, 2, 3, 4] @ replicate 16 0))
       = on_room_participant new_VoiceEngine peer2"
proof -
  have s: "''s2'' \<in> secureChannels engine_acked"
    by (simp add: engine_acked_eq)
  have b: "effects (broadcastEncryptedAudio toy_crypto engine_acked [1, 2, 3, 4])
       = effects engine_acked @
           [AesEncrypt ''s2'', Sent ''s2'' (AudioMsg (replicate 12 0) ([1, 2, 3, 4] @ replicate 16 0))]"
    by (simp add: broadcastEncryptedAudio_def broadcast_to_def engine_acked_eq engine_key_sent_eq
          Let_def toy_encrypt_frame [simplified] toy_frame_split dc_send_def)
  have n: "peerSessionKeys (on_room_participant new_VoiceEngine peer2)
         (dc_peerId (dcStore (on_room_participant new_VoiceEngine peer2) ! 0)) = None"
    by (simp add: room_eq)
  from audio_gates [of toy_crypto "on_room_participant new_VoiceEngine peer2" "[1, 2, 3, 4]" 0
      "\<lambda>frame. False" "replicate 12 0" "[1, 2, 3, 4] @ replicate 16 0"] n
  have "dataChannel_onmessage toy_crypto (\<lambda>frame. False) (on_room_participant new_VoiceEngine peer2) 0
         (AudioMsg (replicate 12 0) ([1, 2, 3, 4] @ replicate 16 0))
       = on_room_participant new_VoiceEngine peer2"
    by blast
  with s b n show ?thesis by blast
qed

end
